theory Spec2Isabelle
  imports Main
begin

section \<open>JavaScript values used by the client\<close>

text \<open>
  A string is the list of the bytes of its UTF-8 encoding. A number is \<^verbatim>\<open>NaN\<close>, an
  infinity, or \<open>Num i\<close>, the double whose value is the integer \<open>i\<close>: the numbers the
  client computes itself come out of \<^verbatim>\<open>parseInt\<close> and a product. \<open>toDouble\<close> rounds an
  integer to the nearest double, to the even one of two, and to an infinity beyond the
  largest double.
\<close>

datatype number = NaN | Num int | Infinity | MinusInfinity

function bitLength :: "int \<Rightarrow> nat" where
  "bitLength n = (if n \<le> 0 then 0 else Suc (bitLength (n div 2)))"
  by pat_completeness auto
termination
  by (relation "measure nat") auto

declare bitLength.simps [simp del]

definition toDouble :: "int \<Rightarrow> number" where
  "toDouble i =
     (let m = \<bar>i\<bar>
      in if m < 2 ^ 53 then Num i
         else
           let e = bitLength m - 53;
               q = m div 2 ^ e;
               r = m mod 2 ^ e;
               up = (2 ^ e < 2 * r \<or> (2 * r = 2 ^ e \<and> odd q));
               v = (if up then q + 1 else q) * 2 ^ e
           in if 2 ^ 1024 \<le> v then (if i < 0 then MinusInfinity else Infinity)
              else Num (if i < 0 then - v else v))"

text \<open>The sign of a number that is not \<^verbatim>\<open>NaN\<close>, and \<^verbatim>\<open>x * y\<close>.\<close>

fun js_sign :: "number \<Rightarrow> int" where
  "js_sign (Num a) = sgn a"
| "js_sign Infinity = 1"
| "js_sign MinusInfinity = - 1"
| "js_sign NaN = 0"

fun js_times :: "number \<Rightarrow> number \<Rightarrow> number" where
  "js_times NaN y = NaN"
| "js_times x NaN = NaN"
| "js_times (Num a) (Num b) = toDouble (a * b)"
| "js_times x y =
     (if js_sign x * js_sign y = 0 then NaN
      else if 0 < js_sign x * js_sign y then Infinity else MinusInfinity)"

text \<open>\<^verbatim>\<open>x <= 0\<close>: every comparison with \<^verbatim>\<open>NaN\<close> is false.\<close>

fun js_le_zero :: "number \<Rightarrow> bool" where
  "js_le_zero (Num a) = (a \<le> 0)"
| "js_le_zero MinusInfinity = True"
| "js_le_zero Infinity = False"
| "js_le_zero NaN = False"

text \<open>Decimal text of a natural number, as a template literal prints an integer.\<close>

definition digit :: "nat \<Rightarrow> char" where
  "digit d = ''0123456789'' ! d"

function decimal :: "nat \<Rightarrow> string" where
  "decimal n = (if n < 10 then [digit n] else decimal (n div 10) @ [digit (n mod 10)])"
  by pat_completeness auto
termination
  by (relation "measure (\<lambda>n. n)") auto

declare decimal.simps [simp del]

text \<open>\<^verbatim>\<open>s.startsWith(p)\<close> and \<^verbatim>\<open>s.includes(p)\<close>.\<close>

definition startsWith :: "string \<Rightarrow> string \<Rightarrow> bool" where
  "startsWith s p = (take (length p) s = p)"

fun includesStr :: "string \<Rightarrow> string \<Rightarrow> bool" where
  "includesStr [] p = (p = [])"
| "includesStr (c # cs) p = (startsWith (c # cs) p \<or> includesStr cs p)"

text \<open>\<^verbatim>\<open>s.toLowerCase()\<close> on the ASCII letters; other characters are kept.\<close>

definition lowerChar :: "char \<Rightarrow> char" where
  "lowerChar c =
     (let n = (of_char c :: nat) in if 65 \<le> n \<and> n \<le> 90 then char_of (n + 32) else c)"

definition toLowerCase :: "string \<Rightarrow> string" where
  "toLowerCase s = map lowerChar s"

subsection \<open>parseInt\<close>

text \<open>
  \<^verbatim>\<open>parseInt(s, radix)\<close> as ECMAScript defines it: leading white space is skipped, a
  sign is read, a \<^verbatim>\<open>0x\<close> prefix switches to radix 16 when no radix (or 0, or 16) is
  given, and the longest prefix of digits is converted and rounded to a double; with no
  digit the result is \<^verbatim>\<open>NaN\<close>. \<open>None\<close> is the call without a radix. White space is
  the white space and the line terminators of ECMAScript: tab, line feed, vertical tab,
  form feed, carriage return, space, U+00A0, U+1680, U+2000 to U+200A, U+2028, U+2029,
  U+202F, U+205F, U+3000 and U+FEFF, each in its UTF-8 encoding.
\<close>

definition whiteSpaces :: "string list" where
  "whiteSpaces =
     [[CHR 0x09], [CHR 0x0A], [CHR 0x0B], [CHR 0x0C], [CHR 0x0D], [CHR 0x20],
      [CHR 0xC2, CHR 0xA0], [CHR 0xE1, CHR 0x9A, CHR 0x80],
      [CHR 0xE2, CHR 0x80, CHR 0x80], [CHR 0xE2, CHR 0x80, CHR 0x81],
      [CHR 0xE2, CHR 0x80, CHR 0x82], [CHR 0xE2, CHR 0x80, CHR 0x83],
      [CHR 0xE2, CHR 0x80, CHR 0x84], [CHR 0xE2, CHR 0x80, CHR 0x85],
      [CHR 0xE2, CHR 0x80, CHR 0x86], [CHR 0xE2, CHR 0x80, CHR 0x87],
      [CHR 0xE2, CHR 0x80, CHR 0x88], [CHR 0xE2, CHR 0x80, CHR 0x89],
      [CHR 0xE2, CHR 0x80, CHR 0x8A], [CHR 0xE2, CHR 0x80, CHR 0xA8],
      [CHR 0xE2, CHR 0x80, CHR 0xA9], [CHR 0xE2, CHR 0x80, CHR 0xAF],
      [CHR 0xE2, CHR 0x81, CHR 0x9F], [CHR 0xE3, CHR 0x80, CHR 0x80],
      [CHR 0xEF, CHR 0xBB, CHR 0xBF]]"

fun skipWhiteSpace :: "string \<Rightarrow> string" where
  "skipWhiteSpace [] = []"
| "skipWhiteSpace (c # cs) =
     (case find (\<lambda>w. startsWith (c # cs) w) whiteSpaces of
        Some w \<Rightarrow> skipWhiteSpace (drop (length w - 1) cs)
      | None \<Rightarrow> c # cs)"

definition digitValue :: "char \<Rightarrow> nat option" where
  "digitValue c =
     (let n = (of_char c :: nat) in
      if 48 \<le> n \<and> n \<le> 57 then Some (n - 48)
      else if 97 \<le> n \<and> n \<le> 122 then Some (n - 87)
      else if 65 \<le> n \<and> n \<le> 90 then Some (n - 55)
      else None)"

definition isRadixDigit :: "nat \<Rightarrow> char \<Rightarrow> bool" where
  "isRadixDigit R c = (case digitValue c of Some d \<Rightarrow> d < R | None \<Rightarrow> False)"

definition radixValue :: "nat \<Rightarrow> string \<Rightarrow> int" where
  "radixValue R z =
     foldl (\<lambda>acc c. acc * int R + (case digitValue c of Some d \<Rightarrow> int d | None \<Rightarrow> 0)) 0 z"

definition parseInt :: "string \<Rightarrow> nat option \<Rightarrow> number" where
  "parseInt inputString radix =
     (let s0 = skipWhiteSpace inputString;
          negative = (s0 \<noteq> [] \<and> hd s0 = CHR ''-'');
          s1 = (if s0 \<noteq> [] \<and> (hd s0 = CHR ''+'' \<or> hd s0 = CHR ''-'') then tl s0 else s0);
          stripPrefix = (radix = None \<or> radix = Some 0 \<or> radix = Some 16);
          hex = (stripPrefix \<and> (startsWith s1 ''0x'' \<or> startsWith s1 ''0X''));
          R = (if hex then 16
               else (case radix of None \<Rightarrow> 10 | Some r \<Rightarrow> if r = 0 then 10 else r));
          s2 = (if hex then drop 2 s1 else s1);
          z = takeWhile (isRadixDigit R) s2
      in if (case radix of Some r \<Rightarrow> r \<noteq> 0 \<and> (r < 2 \<or> 36 < r) | None \<Rightarrow> False)
         then NaN
         else if z = [] then NaN
         else toDouble ((if negative then - 1 else 1) * radixValue R z))"

section \<open>Errors, responses and the runtime\<close>

text \<open>A thrown value: an \<^verbatim>\<open>Error\<close> object with its \<^verbatim>\<open>name\<close> and \<^verbatim>\<open>message\<close>.\<close>

record js_error =
  name :: string
  message :: string

definition Error :: "string \<Rightarrow> js_error" where
  "Error m = \<lparr>name = ''Error'', message = m\<rparr>"

text \<open>
  A multipart form is the list of its entries in the order of the \<^verbatim>\<open>append\<close> calls.
  A \<^verbatim>\<open>Blob\<close> carries its content type and its bytes.
\<close>

datatype part = Text string | Blob string string

type_synonym form = "(string \<times> part) list"

datatype http_method = GET | POST

text \<open>
  A request as \<^verbatim>\<open>fetch\<close> receives it. \<open>signal\<close> is the argument handed to
  \<^verbatim>\<open>AbortSignal.timeout\<close>, the deadline of the request in milliseconds.
\<close>

record request =
  url :: string
  httpMethod :: http_method
  authorization :: string
  accept :: "string option"
  body :: "form option"
  signal :: number

text \<open>
  A response: status, headers (looked up by lower-case name, \<open>None\<close> for
  \<^verbatim>\<open>null\<close>), and the three readings of the body the client uses: \<open>payload\<close> is the
  bytes of \<^verbatim>\<open>arrayBuffer()\<close>, \<open>bodyText\<close> the decoded text of \<^verbatim>\<open>text()\<close>, and
  \<open>json\<close> what \<^verbatim>\<open>json()\<close> and the reading of a property give: an exception, or an
  object whose properties are read by name (\<open>None\<close> for \<^verbatim>\<open>undefined\<close>). Of the value
  of a property the client uses two things: whether it is truthy (\<^verbatim>\<open>!id\<close> holds for
  \<^verbatim>\<open>null\<close>, \<^verbatim>\<open>false\<close>, \<^verbatim>\<open>0\<close> and the empty string) and the text it has in a template
  literal.
\<close>

datatype json_value = JsonValue (truthy: bool) (printed: string)

datatype json_body = JsonThrows js_error | JsonObject "string \<rightharpoonup> json_value"

record response =
  status :: nat
  headers :: "string \<Rightarrow> string option"
  payload :: string
  bodyText :: string
  json :: json_body

definition ok :: "response \<Rightarrow> bool" where
  "ok r = (200 \<le> status r \<and> status r \<le> 299)"

datatype fetch_outcome = Rejects js_error | Responds response

text \<open>
  What one invocation does to the outside world, in order: requests sent, delays
  awaited, directories created and files written. \<open>sent\<close> gives the requests of a
  trace.
\<close>

datatype event = Fetch request | Sleep nat | Mkdir string | WriteFile string string

definition sent :: "event list \<Rightarrow> request list" where
  "sent tr = concat (map (\<lambda>e. case e of Fetch r \<Rightarrow> [r] | _ \<Rightarrow> []) tr)"

text \<open>
  The runtime around the client. \<open>respond\<close> is the network: any function from the number
  of requests already sent and the request to an outcome, since the remote service may
  answer each request differently. \<open>abortSignalTimeout\<close> is \<^verbatim>\<open>AbortSignal.timeout\<close>: the
  exception it throws for the delay it is given, or \<open>None\<close> when it returns a signal (Node
  throws a \<^verbatim>\<open>RangeError\<close> for a delay that is not an integer from 0 to 4294967295).
  \<open>numberText\<close> is the text of a number in a template literal.
\<close>

record runtime =
  respond :: "nat \<Rightarrow> request \<Rightarrow> fetch_outcome"
  abortSignalTimeout :: "number \<Rightarrow> js_error option"
  numberText :: "number \<Rightarrow> string"

definition fetch :: "runtime \<Rightarrow> request \<Rightarrow> event list \<Rightarrow> fetch_outcome \<times> event list" where
  "fetch net req tr = (respond net (length (sent tr)) req, tr @ [Fetch req])"

text \<open>
  \<^verbatim>\<open>fetch(url, {..., signal: AbortSignal.timeout(d)})\<close>: the arguments are evaluated
  before the call, so when \<^verbatim>\<open>AbortSignal.timeout\<close> throws nothing is sent, and the
  exception leaves the method like a rejection of \<^verbatim>\<open>fetch\<close> does.
\<close>

definition fetchWithTimeout ::
  "runtime \<Rightarrow> request \<Rightarrow> event list \<Rightarrow> fetch_outcome \<times> event list" where
  "fetchWithTimeout net req tr =
     (case abortSignalTimeout net (signal req) of
        Some e \<Rightarrow> (Rejects e, tr)
      | None \<Rightarrow> fetch net req tr)"

section \<open>Configuration\<close>

record config =
  apiKey :: string
  timeout :: number
  outputDir :: string
  output3dDir :: string

definition API_BASE :: string where
  "API_BASE = ''https://api.stability.ai''"

text \<open>\<^verbatim>\<open>loadConfig\<close> reads the environment, a map from variable names to values.\<close>

definition loadConfig :: "(string \<rightharpoonup> string) \<Rightarrow> js_error + config" where
  "loadConfig env =
     (case env ''STABILITY_API_KEY'' of
        None \<Rightarrow> Inl (Error ''Stability AI API key not configured. Please set the STABILITY_API_KEY environment variable.'')
      | Some k \<Rightarrow>
          if k = [] then Inl (Error ''Stability AI API key not configured. Please set the STABILITY_API_KEY environment variable.'')
          else
            let outputDir = (case env ''STABILITY_OUTPUT_DIR'' of
                               None \<Rightarrow> ''./generated-images''
                             | Some d \<Rightarrow> if d = [] then ''./generated-images'' else d);
                output3dDir = (case env ''STABILITY_3D_OUTPUT_DIR'' of
                                 None \<Rightarrow> ''./generated-3d''
                               | Some d \<Rightarrow> if d = [] then ''./generated-3d'' else d);
                timeout = (case env ''STABILITY_TIMEOUT'' of
                             None \<Rightarrow> Num 60000
                           | Some timeoutStr \<Rightarrow>
                               if timeoutStr = [] then Num 60000 else parseInt timeoutStr (Some 10))
            in if js_le_zero timeout
               then Inl (Error ''STABILITY_TIMEOUT must be a positive number'')
               else Inr \<lparr>apiKey = k, timeout = timeout, outputDir = outputDir,
                         output3dDir = output3dDir\<rparr>)"


section \<open>The local platform\<close>

text \<open>
  Node's \<^verbatim>\<open>path\<close>, \<^verbatim>\<open>fs\<close> and clock, as one invocation sees them. \<open>resolve\<close> is
  \<^verbatim>\<open>path.resolve\<close> of one path, \<open>resolveIn\<close> of a directory and a file name;
  \<open>readFileSync\<close> may throw; \<open>now\<close> is \<^verbatim>\<open>new Date().toISOString()\<close>.
\<close>

record platform =
  resolve :: "string \<Rightarrow> string"
  resolveIn :: "string \<Rightarrow> string \<Rightarrow> string"
  dirname :: "string \<Rightarrow> string"
  existsSync :: "string \<Rightarrow> bool"
  readFileSync :: "string \<Rightarrow> js_error + string"
  now :: string

text \<open>
  \<^verbatim>\<open>path.extname\<close> (POSIX): trailing separators are ignored; the extension runs from
  the last dot of the last path component to its end; it is empty when that component has
  no dot, when nothing precedes the dot, and for the component \<^verbatim>\<open>..\<close>.
\<close>

definition extname :: "string \<Rightarrow> string" where
  "extname p =
     (let trimmed = rev (dropWhile (\<lambda>c. c = CHR ''/'') (rev p));
          base = rev (takeWhile (\<lambda>c. c \<noteq> CHR ''/'') (rev trimmed));
          ext = rev (takeWhile (\<lambda>c. c \<noteq> CHR ''.'') (rev base))
      in if CHR ''.'' \<notin> set base then []
         else if length base = length ext + 1 then []
         else if base = ''..'' then []
         else CHR ''.'' # ext)"

definition mimeTypes :: "(string \<times> string) list" where
  "mimeTypes =
     [(''.png'', ''image/png''),
      (''.jpg'', ''image/jpeg''),
      (''.jpeg'', ''image/jpeg''),
      (''.webp'', ''image/webp''),
      (''.gif'', ''image/gif''),
      (''.bmp'', ''image/bmp'')]"

definition getMimeType :: "string \<Rightarrow> string" where
  "getMimeType filePath =
     (let ext = toLowerCase (extname filePath)
      in case map_of mimeTypes ext of Some m \<Rightarrow> m | None \<Rightarrow> ''image/png'')"

definition fileBlob :: "platform \<Rightarrow> string \<Rightarrow> js_error + part" where
  "fileBlob fs filePath =
     (let absolutePath = resolve fs filePath
      in if \<not> existsSync fs absolutePath
         then Inl (Error (''File not found: '' @ absolutePath))
         else (case readFileSync fs absolutePath of
                 Inl e \<Rightarrow> Inl e
               | Inr buffer \<Rightarrow> Inr (Blob (getMimeType absolutePath) buffer)))"

section \<open>Transport\<close>

record image_result =
  data :: string
  format :: string
  resultSeed :: "number option"
  finishReason :: "string option"

text \<open>
  The decoding of a successful binary response, which \<^verbatim>\<open>postImage\<close> and the polling
  loop of \<^verbatim>\<open>postImageAsync\<close> both spell out: \<^verbatim>\<open>x || d\<close> takes \<open>d\<close> for an absent or
  empty header.
\<close>

definition decodeImage :: "response \<Rightarrow> image_result" where
  "decodeImage r =
     (let contentType = (case headers r ''content-type'' of
                           None \<Rightarrow> ''image/png''
                         | Some c \<Rightarrow> if c = [] then ''image/png'' else c);
          format = (if includesStr contentType ''jpeg'' then ''jpeg''
                    else if includesStr contentType ''webp'' then ''webp'' else ''png'');
          seed = (case headers r ''x-seed'' of
                    None \<Rightarrow> None
                  | Some x \<Rightarrow> if x = [] then None else Some (parseInt x None));
          finishReason = (case headers r ''finish-reason'' of
                            None \<Rightarrow> None
                          | Some f \<Rightarrow> if f = [] then None else Some f)
      in \<lparr>data = payload r, format = format, resultSeed = seed, finishReason = finishReason\<rparr>)"

text \<open>
  The three kinds of \<^verbatim>\<open>POST\<close> the client sends, as the object literals handed to
  \<^verbatim>\<open>fetch\<close> in \<^verbatim>\<open>postRaw\<close>, \<^verbatim>\<open>postImage\<close> and the first step of \<^verbatim>\<open>postImageAsync\<close>.
\<close>

definition rawRequest :: "config \<Rightarrow> string \<Rightarrow> form \<Rightarrow> request" where
  "rawRequest cfg endpoint form =
     \<lparr>url = API_BASE @ endpoint, httpMethod = POST,
      authorization = ''Bearer '' @ apiKey cfg, accept = Some ''application/json'',
      body = Some form, signal = js_times (timeout cfg) (Num 3)\<rparr>"

definition imageRequest :: "config \<Rightarrow> string \<Rightarrow> form \<Rightarrow> request" where
  "imageRequest cfg endpoint form =
     \<lparr>url = API_BASE @ endpoint, httpMethod = POST,
      authorization = ''Bearer '' @ apiKey cfg, accept = Some ''image/*'',
      body = Some form, signal = js_times (timeout cfg) (Num 3)\<rparr>"

definition submitRequest :: "config \<Rightarrow> string \<Rightarrow> form \<Rightarrow> request" where
  "submitRequest cfg endpoint form =
     \<lparr>url = API_BASE @ endpoint, httpMethod = POST,
      authorization = ''Bearer '' @ apiKey cfg, accept = Some ''application/json'',
      body = Some form, signal = timeout cfg\<rparr>"

definition postRaw ::
  "runtime \<Rightarrow> config \<Rightarrow> string \<Rightarrow> form \<Rightarrow> event list \<Rightarrow> fetch_outcome \<times> event list" where
  "postRaw net cfg endpoint form tr = fetchWithTimeout net (rawRequest cfg endpoint form) tr"

definition postImage ::
  "runtime \<Rightarrow> config \<Rightarrow> string \<Rightarrow> form \<Rightarrow> event list
     \<Rightarrow> (js_error + image_result) \<times> event list" where
  "postImage net cfg endpoint form tr =
     (case fetchWithTimeout net (imageRequest cfg endpoint form) tr of
        (Rejects e, tr1) \<Rightarrow> (Inl e, tr1)
      | (Responds response, tr1) \<Rightarrow>
          if \<not> ok response
          then (Inl (Error (''Stability AI error (HTTP '' @ decimal (status response) @ ''): ''
                            @ bodyText response)), tr1)
          else (Inr (decodeImage response), tr1))"

subsection \<open>The asynchronous job poller\<close>

definition maxAttempts :: nat where
  "maxAttempts = 60"

definition pollInterval :: nat where
  "pollInterval = 5000"

definition pollRequest :: "config \<Rightarrow> string \<Rightarrow> request" where
  "pollRequest cfg generationId =
     \<lparr>url = API_BASE @ ''/v2beta/results/'' @ generationId, httpMethod = GET,
      authorization = ''Bearer '' @ apiKey cfg, accept = Some ''image/*'',
      body = None, signal = timeout cfg\<rparr>"

text \<open>
  The \<^verbatim>\<open>for\<close> loop of \<^verbatim>\<open>postImageAsync\<close> from \<open>attempt\<close> on; when the loop runs out
  the statement after it throws.
\<close>

function pollLoop ::
  "runtime \<Rightarrow> config \<Rightarrow> string \<Rightarrow> nat \<Rightarrow> event list
     \<Rightarrow> (js_error + image_result) \<times> event list" where
  "pollLoop net cfg generationId attempt tr =
     (if attempt < maxAttempts then
        (case fetchWithTimeout net (pollRequest cfg generationId) (tr @ [Sleep pollInterval]) of
           (Rejects e, tr1) \<Rightarrow> (Inl e, tr1)
         | (Responds pollResponse, tr1) \<Rightarrow>
             if status pollResponse = 202
             then pollLoop net cfg generationId (attempt + 1) tr1
             else if \<not> ok pollResponse
             then (Inl (Error (''Polling failed (HTTP '' @ decimal (status pollResponse)
                               @ ''): '' @ bodyText pollResponse)), tr1)
             else (Inr (decodeImage pollResponse), tr1))
      else (Inl (Error (''Async generation timed out after ''
                        @ decimal (maxAttempts * pollInterval div 1000) @ '' seconds'')), tr))"
  by pat_completeness auto
termination
  by (relation "measure (\<lambda>(net, cfg, generationId, attempt, tr). maxAttempts - attempt)") auto

declare pollLoop.simps [simp del]

definition postImageAsync ::
  "runtime \<Rightarrow> config \<Rightarrow> string \<Rightarrow> form \<Rightarrow> event list
     \<Rightarrow> (js_error + image_result) \<times> event list" where
  "postImageAsync net cfg endpoint form tr =
     (case fetchWithTimeout net (submitRequest cfg endpoint form) tr of
        (Rejects e, tr1) \<Rightarrow> (Inl e, tr1)
      | (Responds submitResponse, tr1) \<Rightarrow>
          if \<not> ok submitResponse
          then (Inl (Error (''Stability AI error (HTTP '' @ decimal (status submitResponse)
                            @ ''): '' @ bodyText submitResponse)), tr1)
          else (case json submitResponse of
                  JsonThrows e \<Rightarrow> (Inl e, tr1)
                | JsonObject submitData \<Rightarrow>
                    (case submitData ''id'' of
                       None \<Rightarrow> (Inl (Error ''No generation ID returned from async endpoint''), tr1)
                     | Some generationId \<Rightarrow>
                         if \<not> truthy generationId
                         then (Inl (Error ''No generation ID returned from async endpoint''), tr1)
                         else pollLoop net cfg (printed generationId) 0 tr1)))"

text \<open>
  The classification helper of the client. No method of the client calls it.
  \<^verbatim>\<open>error.message || error\<close> prints the error itself when the message is empty.
\<close>

definition errorToString :: "js_error \<Rightarrow> string" where
  "errorToString e =
     (if name e = [] then message e
      else if message e = [] then name e
      else name e @ '': '' @ message e)"

definition handleError :: "js_error \<Rightarrow> js_error" where
  "handleError error =
     (if name error = ''TimeoutError'' \<or> includesStr (message error) ''timeout''
      then Error ''Stability AI API request timed out. Please try again.''
      else if includesStr (message error) ''401'' \<or> includesStr (message error) ''403''
      then Error ''Invalid Stability AI API key. Please check your STABILITY_API_KEY environment variable.''
      else if includesStr (message error) ''429''
      then Error ''Stability AI API rate limit exceeded. Please wait a moment and try again.''
      else if includesStr (message error) ''402''
      then Error ''Insufficient credits. Please add credits at platform.stability.ai.''
      else Error (''Stability AI error: ''
                  @ (if message error \<noteq> [] then message error else errorToString error)))"

section \<open>Endpoint registry\<close>

datatype generation_model = Ultra | Core | Sd35Large | Sd35LargeTurbo | Sd35Medium

fun generationModelName :: "generation_model \<Rightarrow> string" where
  "generationModelName Ultra = ''ultra''"
| "generationModelName Core = ''core''"
| "generationModelName Sd35Large = ''sd3.5-large''"
| "generationModelName Sd35LargeTurbo = ''sd3.5-large-turbo''"
| "generationModelName Sd35Medium = ''sd3.5-medium''"

fun GENERATION_MODELS :: "generation_model \<Rightarrow> string" where
  "GENERATION_MODELS Ultra = ''/v2beta/stable-image/generate/ultra''"
| "GENERATION_MODELS Core = ''/v2beta/stable-image/generate/core''"
| "GENERATION_MODELS Sd35Large = ''/v2beta/stable-image/generate/sd3''"
| "GENERATION_MODELS Sd35LargeTurbo = ''/v2beta/stable-image/generate/sd3''"
| "GENERATION_MODELS Sd35Medium = ''/v2beta/stable-image/generate/sd3''"

datatype edit_operation =
  Erase | InpaintOp | OutpaintOp | SearchReplace | SearchRecolor | RemoveBg | ReplaceBgRelight

fun EDIT_ENDPOINTS :: "edit_operation \<Rightarrow> string" where
  "EDIT_ENDPOINTS Erase = ''/v2beta/stable-image/edit/erase''"
| "EDIT_ENDPOINTS InpaintOp = ''/v2beta/stable-image/edit/inpaint''"
| "EDIT_ENDPOINTS OutpaintOp = ''/v2beta/stable-image/edit/outpaint''"
| "EDIT_ENDPOINTS SearchReplace = ''/v2beta/stable-image/edit/search-and-replace''"
| "EDIT_ENDPOINTS SearchRecolor = ''/v2beta/stable-image/edit/search-and-recolor''"
| "EDIT_ENDPOINTS RemoveBg = ''/v2beta/stable-image/edit/remove-background''"
| "EDIT_ENDPOINTS ReplaceBgRelight = ''/v2beta/stable-image/edit/replace-background-and-relight''"

datatype upscale_mode = Fast | Conservative | Creative


fun UPSCALE_ENDPOINTS :: "upscale_mode \<Rightarrow> string" where
  "UPSCALE_ENDPOINTS Fast = ''/v2beta/stable-image/upscale/fast''"
| "UPSCALE_ENDPOINTS Conservative = ''/v2beta/stable-image/upscale/conservative''"
| "UPSCALE_ENDPOINTS Creative = ''/v2beta/stable-image/upscale/creative''"

datatype control_operation = Sketch | Structure | Style | StyleTransferOp

fun CONTROL_ENDPOINTS :: "control_operation \<Rightarrow> string" where
  "CONTROL_ENDPOINTS Sketch = ''/v2beta/stable-image/control/sketch''"
| "CONTROL_ENDPOINTS Structure = ''/v2beta/stable-image/control/structure''"
| "CONTROL_ENDPOINTS Style = ''/v2beta/stable-image/control/style''"
| "CONTROL_ENDPOINTS StyleTransferOp = ''/v2beta/stable-image/control/style-transfer''"

datatype three_d_model = StableFast3d | Spar3d


fun THREE_D_ENDPOINTS :: "three_d_model \<Rightarrow> string" where
  "THREE_D_ENDPOINTS StableFast3d = ''/v2beta/3d/stable-fast-3d''"
| "THREE_D_ENDPOINTS Spar3d = ''/v2beta/3d/stable-point-aware-3d''"

datatype output_format = Png | Jpeg | Webp

fun outputFormatName :: "output_format \<Rightarrow> string" where
  "outputFormatName Png = ''png''"
| "outputFormatName Jpeg = ''jpeg''"
| "outputFormatName Webp = ''webp''"

section \<open>Multipart request builder\<close>

text \<open>
  One constructor for each method of the client that builds a form; its arguments are
  the fields of the method's \<^verbatim>\<open>options\<close> in the order of their declaration, an optional
  field being \<open>None\<close> when it is \<^verbatim>\<open>undefined\<close> (\<open>image'\<close>, \<open>mask'\<close> and \<open>top'\<close> are
  the fields \<^verbatim>\<open>image\<close>, \<^verbatim>\<open>mask\<close> and \<^verbatim>\<open>top\<close>). Numeric fields have any type \<open>'n\<close>:
  the client only tests them against \<^verbatim>\<open>undefined\<close> and prints them with
  \<^verbatim>\<open>toString()\<close>, which the builder takes as the parameter \<open>toStr\<close>.
\<close>

datatype 'n call =
    GenerateImage string "generation_model option" "string option" "string option"
      "'n option" "'n option" "string option" "output_format option" "string option"
  | EraseObject string "string option" "output_format option"
  | Inpaint string string "string option" "string option" "'n option" "output_format option"
  | Outpaint string "string option" "'n option" "'n option" "'n option" "'n option" "'n option"
      "output_format option"
  | SearchAndReplace string string string "string option" "'n option" "output_format option"
  | SearchAndRecolor string string string "string option" "'n option" "output_format option"
  | RemoveBackground string "output_format option"
  | ReplaceBackground string string "string option" "string option" "string option" "'n option"
      "output_format option"
  | UpscaleImage string "upscale_mode option" "string option" "string option" "'n option"
      "'n option" "output_format option"
  | ControlSketch string string "string option" "'n option" "'n option" "output_format option"
  | ControlStructure string string "string option" "'n option" "'n option" "output_format option"
  | ControlStyle string string "string option" "'n option" "'n option" "output_format option"
  | StyleTransfer string string "string option" "string option" "'n option" "output_format option"
  | Generate3D string "three_d_model option" "'n option" "'n option" "string option" "'n option"

text \<open>
  The statements that fill a form. Each gives the entries it appends, or the exception
  it throws. \<open>textFieldIf\<close> is \<^verbatim>\<open>if (v) form.append(name, v)\<close>, which skips
  \<^verbatim>\<open>undefined\<close> and the empty string; \<open>numberFieldIf\<close> is
  \<^verbatim>\<open>if (v !== undefined) form.append(name, v.toString())\<close>.
\<close>

definition textField :: "string \<Rightarrow> string \<Rightarrow> js_error + form" where
  "textField fieldName v = Inr [(fieldName, Text v)]"

definition textFieldIf :: "string \<Rightarrow> string option \<Rightarrow> js_error + form" where
  "textFieldIf fieldName v =
     (case v of None \<Rightarrow> Inr [] | Some s \<Rightarrow> if s = [] then Inr [] else Inr [(fieldName, Text s)])"

definition numberFieldIf :: "('n \<Rightarrow> string) \<Rightarrow> string \<Rightarrow> 'n option \<Rightarrow> js_error + form" where
  "numberFieldIf toStr fieldName v =
     (case v of None \<Rightarrow> Inr [] | Some x \<Rightarrow> Inr [(fieldName, Text (toStr x))])"

definition outputFormatField :: "output_format option \<Rightarrow> js_error + form" where
  "outputFormatField outputFormat =
     Inr [(''output_format'',
           Text (case outputFormat of None \<Rightarrow> ''png'' | Some f \<Rightarrow> outputFormatName f))]"

definition fileField :: "platform \<Rightarrow> string \<Rightarrow> string \<Rightarrow> js_error + form" where
  "fileField fs fieldName filePath =
     (case fileBlob fs filePath of Inl e \<Rightarrow> Inl e | Inr blob \<Rightarrow> Inr [(fieldName, blob)])"

definition fileFieldIf :: "platform \<Rightarrow> string \<Rightarrow> string option \<Rightarrow> js_error + form" where
  "fileFieldIf fs fieldName filePath =
     (case filePath of
        None \<Rightarrow> Inr []
      | Some p \<Rightarrow> if p = [] then Inr [] else fileField fs fieldName p)"

text \<open>Statements in sequence: the first exception ends the method.\<close>

fun inOrder :: "(js_error + form) list \<Rightarrow> js_error + form" where
  "inOrder [] = Inr []"
| "inOrder (Inl e # rest) = Inl e"
| "inOrder (Inr entries # rest) =
     (case inOrder rest of Inl e \<Rightarrow> Inl e | Inr others \<Rightarrow> Inr (entries @ others))"

text \<open>\<^verbatim>\<open>options.model || 'core'\<close> and its like.\<close>

definition orElse :: "'a option \<Rightarrow> 'a \<Rightarrow> 'a" where
  "orElse v d = (case v of None \<Rightarrow> d | Some x \<Rightarrow> x)"

definition isTruthy :: "string option \<Rightarrow> bool" where
  "isTruthy v = (case v of None \<Rightarrow> False | Some s \<Rightarrow> s \<noteq> [])"

text \<open>The form each method builds before it posts.\<close>

fun requestForm :: "('n \<Rightarrow> string) \<Rightarrow> platform \<Rightarrow> 'n call \<Rightarrow> js_error + form" where
  "requestForm toStr fs
     (GenerateImage prompt model negativePrompt image' strength seed aspectRatio outputFormat
        stylePreset) =
     inOrder
       [textField ''prompt'' prompt,
        textFieldIf ''negative_prompt'' negativePrompt,
        numberFieldIf toStr ''seed'' seed,
        textFieldIf ''aspect_ratio'' aspectRatio,
        outputFormatField outputFormat,
        if startsWith (generationModelName (orElse model Core)) ''sd3.5'' then
          inOrder
            [textField ''model'' (generationModelName (orElse model Core)),
             if isTruthy image' then
               inOrder
                 [textField ''mode'' ''image-to-image'',
                  fileFieldIf fs ''image'' image',
                  numberFieldIf toStr ''strength'' strength]
             else textField ''mode'' ''text-to-image'']
        else if orElse model Core = Ultra \<and> isTruthy image' then
          inOrder
            [fileFieldIf fs ''image'' image',
             numberFieldIf toStr ''strength'' strength]
        else Inr [],
        if isTruthy stylePreset
           \<and> (orElse model Core = Core
                \<or> startsWith (generationModelName (orElse model Core)) ''sd3.5'')
        then textFieldIf ''style_preset'' stylePreset
        else Inr []]"
| "requestForm toStr fs (EraseObject image' mask' outputFormat) =
     inOrder
       [fileField fs ''image'' image',
        fileFieldIf fs ''mask'' mask',
        outputFormatField outputFormat]"
| "requestForm toStr fs (Inpaint image' prompt mask' negativePrompt seed outputFormat) =
     inOrder
       [fileField fs ''image'' image',
        textField ''prompt'' prompt,
        fileFieldIf fs ''mask'' mask',
        textFieldIf ''negative_prompt'' negativePrompt,
        numberFieldIf toStr ''seed'' seed,
        outputFormatField outputFormat]"
| "requestForm toStr fs (Outpaint image' prompt left right top' bottom creativity outputFormat) =
     inOrder
       [fileField fs ''image'' image',
        textFieldIf ''prompt'' prompt,
        numberFieldIf toStr ''left'' left,
        numberFieldIf toStr ''right'' right,
        numberFieldIf toStr ''top'' top',
        numberFieldIf toStr ''bottom'' bottom,
        numberFieldIf toStr ''creativity'' creativity,
        outputFormatField outputFormat]"
| "requestForm toStr fs
     (SearchAndReplace image' prompt searchPrompt negativePrompt seed outputFormat) =
     inOrder
       [fileField fs ''image'' image',
        textField ''prompt'' prompt,
        textField ''search_prompt'' searchPrompt,
        textFieldIf ''negative_prompt'' negativePrompt,
        numberFieldIf toStr ''seed'' seed,
        outputFormatField outputFormat]"
| "requestForm toStr fs
     (SearchAndRecolor image' prompt selectPrompt negativePrompt seed outputFormat) =
     inOrder
       [fileField fs ''image'' image',
        textField ''prompt'' prompt,
        textField ''select_prompt'' selectPrompt,
        textFieldIf ''negative_prompt'' negativePrompt,
        numberFieldIf toStr ''seed'' seed,
        outputFormatField outputFormat]"
| "requestForm toStr fs (RemoveBackground image' outputFormat) =
     inOrder
       [fileField fs ''image'' image',
        outputFormatField outputFormat]"
| "requestForm toStr fs
     (ReplaceBackground image' backgroundPrompt foregroundPrompt negativePrompt
        lightSourceDirection lightSourceStrength outputFormat) =
     inOrder
       [fileField fs ''image'' image',
        textField ''background_prompt'' backgroundPrompt,
        textFieldIf ''foreground_prompt'' foregroundPrompt,
        textFieldIf ''negative_prompt'' negativePrompt,
        textFieldIf ''light_source_direction'' lightSourceDirection,
        numberFieldIf toStr ''light_source_strength'' lightSourceStrength,
        outputFormatField outputFormat]"
| "requestForm toStr fs
     (UpscaleImage image' mode prompt negativePrompt seed creativity outputFormat) =
     inOrder
       [fileField fs ''image'' image',
        outputFormatField outputFormat,
        if orElse mode Fast \<noteq> Fast then
          inOrder
            [textFieldIf ''prompt'' prompt,
             textFieldIf ''negative_prompt'' negativePrompt,
             numberFieldIf toStr ''seed'' seed,
             numberFieldIf toStr ''creativity'' creativity]
        else Inr []]"
| "requestForm toStr fs
     (ControlSketch image' prompt negativePrompt seed controlStrength outputFormat) =
     inOrder
       [fileField fs ''image'' image',
        textField ''prompt'' prompt,
        textFieldIf ''negative_prompt'' negativePrompt,
        numberFieldIf toStr ''seed'' seed,
        numberFieldIf toStr ''control_strength'' controlStrength,
        outputFormatField outputFormat]"
| "requestForm toStr fs
     (ControlStructure image' prompt negativePrompt seed controlStrength outputFormat) =
     inOrder
       [fileField fs ''image'' image',
        textField ''prompt'' prompt,
        textFieldIf ''negative_prompt'' negativePrompt,
        numberFieldIf toStr ''seed'' seed,
        numberFieldIf toStr ''control_strength'' controlStrength,
        outputFormatField outputFormat]"
| "requestForm toStr fs (ControlStyle image' prompt negativePrompt seed fidelity outputFormat) =
     inOrder
       [fileField fs ''image'' image',
        textField ''prompt'' prompt,
        textFieldIf ''negative_prompt'' negativePrompt,
        numberFieldIf toStr ''seed'' seed,
        numberFieldIf toStr ''fidelity'' fidelity,
        outputFormatField outputFormat]"
| "requestForm toStr fs
     (StyleTransfer initImage styleImage prompt negativePrompt seed outputFormat) =
     inOrder
       [fileField fs ''init_image'' initImage,
        fileField fs ''style_image'' styleImage,
        textFieldIf ''prompt'' prompt,
        textFieldIf ''negative_prompt'' negativePrompt,
        numberFieldIf toStr ''seed'' seed,
        outputFormatField outputFormat]"
| "requestForm toStr fs
     (Generate3D image' model textureResolution foregroundRatio remesh guidanceScale) =
     inOrder
       [fileField fs ''image'' image',
        numberFieldIf toStr ''texture_resolution'' textureResolution,
        if orElse model StableFast3d = StableFast3d then
          inOrder
            [numberFieldIf toStr ''foreground_ratio'' foregroundRatio,
             textFieldIf ''remesh'' remesh]
        else if orElse model StableFast3d = Spar3d then
          numberFieldIf toStr ''guidance_scale'' guidanceScale
        else Inr []]"

text \<open>
  Two views of a statement's outcome, used to state what a form contains: the entries
  it appended, and whether it ran without an exception.
\<close>

definition entries :: "js_error + form \<Rightarrow> (string \<times> part) set" where
  "entries r = (case r of Inl e \<Rightarrow> {} | Inr f \<Rightarrow> set f)"

definition succeeds :: "js_error + form \<Rightarrow> bool" where
  "succeeds r = (case r of Inl e \<Rightarrow> False | Inr f \<Rightarrow> True)"

text \<open>
  For the statement of which optional fields a form carries: the optional text fields
  and the optional numeric fields of each method, by the name they have in the form, with
  the value the caller gave; and the fields a method leaves out of the form whatever the
  caller gave, because of the model or mode of the call.
\<close>

fun optionalTextFields :: "'n call \<Rightarrow> (string \<times> string option) list" where
  "optionalTextFields
     (GenerateImage prompt model negativePrompt image' strength seed aspectRatio outputFormat
        stylePreset) =
     [(''negative_prompt'', negativePrompt), (''aspect_ratio'', aspectRatio),
      (''style_preset'', stylePreset)]"
| "optionalTextFields (EraseObject image' mask' outputFormat) = []"
| "optionalTextFields (Inpaint image' prompt mask' negativePrompt seed outputFormat) =
     [(''negative_prompt'', negativePrompt)]"
| "optionalTextFields (Outpaint image' prompt left right top' bottom creativity outputFormat) =
     [(''prompt'', prompt)]"
| "optionalTextFields
     (SearchAndReplace image' prompt searchPrompt negativePrompt seed outputFormat) =
     [(''negative_prompt'', negativePrompt)]"
| "optionalTextFields
     (SearchAndRecolor image' prompt selectPrompt negativePrompt seed outputFormat) =
     [(''negative_prompt'', negativePrompt)]"
| "optionalTextFields (RemoveBackground image' outputFormat) = []"
| "optionalTextFields
     (ReplaceBackground image' backgroundPrompt foregroundPrompt negativePrompt
        lightSourceDirection lightSourceStrength outputFormat) =
     [(''foreground_prompt'', foregroundPrompt), (''negative_prompt'', negativePrompt),
      (''light_source_direction'', lightSourceDirection)]"
| "optionalTextFields
     (UpscaleImage image' mode prompt negativePrompt seed creativity outputFormat) =
     [(''prompt'', prompt), (''negative_prompt'', negativePrompt)]"
| "optionalTextFields
     (ControlSketch image' prompt negativePrompt seed controlStrength outputFormat) =
     [(''negative_prompt'', negativePrompt)]"
| "optionalTextFields
     (ControlStructure image' prompt negativePrompt seed controlStrength outputFormat) =
     [(''negative_prompt'', negativePrompt)]"
| "optionalTextFields (ControlStyle image' prompt negativePrompt seed fidelity outputFormat) =
     [(''negative_prompt'', negativePrompt)]"
| "optionalTextFields
     (StyleTransfer initImage styleImage prompt negativePrompt seed outputFormat) =
     [(''prompt'', prompt), (''negative_prompt'', negativePrompt)]"
| "optionalTextFields
     (Generate3D image' model textureResolution foregroundRatio remesh guidanceScale) =
     [(''remesh'', remesh)]"

fun optionalNumberFields :: "'n call \<Rightarrow> (string \<times> 'n option) list" where
  "optionalNumberFields
     (GenerateImage prompt model negativePrompt image' strength seed aspectRatio outputFormat
        stylePreset) =
     [(''strength'', strength), (''seed'', seed)]"
| "optionalNumberFields (EraseObject image' mask' outputFormat) = []"
| "optionalNumberFields (Inpaint image' prompt mask' negativePrompt seed outputFormat) =
     [(''seed'', seed)]"
| "optionalNumberFields (Outpaint image' prompt left right top' bottom creativity outputFormat) =
     [(''left'', left), (''right'', right), (''top'', top'), (''bottom'', bottom),
      (''creativity'', creativity)]"
| "optionalNumberFields
     (SearchAndReplace image' prompt searchPrompt negativePrompt seed outputFormat) =
     [(''seed'', seed)]"
| "optionalNumberFields
     (SearchAndRecolor image' prompt selectPrompt negativePrompt seed outputFormat) =
     [(''seed'', seed)]"
| "optionalNumberFields (RemoveBackground image' outputFormat) = []"
| "optionalNumberFields
     (ReplaceBackground image' backgroundPrompt foregroundPrompt negativePrompt
        lightSourceDirection lightSourceStrength outputFormat) =
     [(''light_source_strength'', lightSourceStrength)]"
| "optionalNumberFields
     (UpscaleImage image' mode prompt negativePrompt seed creativity outputFormat) =
     [(''seed'', seed), (''creativity'', creativity)]"
| "optionalNumberFields
     (ControlSketch image' prompt negativePrompt seed controlStrength outputFormat) =
     [(''seed'', seed), (''control_strength'', controlStrength)]"
| "optionalNumberFields
     (ControlStructure image' prompt negativePrompt seed controlStrength outputFormat) =
     [(''seed'', seed), (''control_strength'', controlStrength)]"
| "optionalNumberFields (ControlStyle image' prompt negativePrompt seed fidelity outputFormat) =
     [(''seed'', seed), (''fidelity'', fidelity)]"
| "optionalNumberFields
     (StyleTransfer initImage styleImage prompt negativePrompt seed outputFormat) =
     [(''seed'', seed)]"
| "optionalNumberFields
     (Generate3D image' model textureResolution foregroundRatio remesh guidanceScale) =
     [(''texture_resolution'', textureResolution), (''foreground_ratio'', foregroundRatio),
      (''guidance_scale'', guidanceScale)]"

fun leftOut :: "'n call \<Rightarrow> string \<Rightarrow> bool" where
  "leftOut
     (GenerateImage prompt model negativePrompt image' strength seed aspectRatio outputFormat
        stylePreset) n =
     ((n = ''strength'' \<and> (orElse model Core = Core \<or> \<not> isTruthy image'))
      \<or> (n = ''style_preset'' \<and> orElse model Core = Ultra))"
| "leftOut (UpscaleImage image' mode prompt negativePrompt seed creativity outputFormat) n =
     (orElse mode Fast = Fast)"
| "leftOut (Generate3D image' model textureResolution foregroundRatio remesh guidanceScale) n =
     (((n = ''foreground_ratio'' \<or> n = ''remesh'') \<and> orElse model StableFast3d = Spar3d)
      \<or> (n = ''guidance_scale'' \<and> orElse model StableFast3d = StableFast3d))"
| "leftOut c n = False"

text \<open>
  The names a method puts into the form besides its optional text and numeric fields:
  required fields, files, the output format, and the model and mode of a generation.
\<close>

fun fixedFieldNames :: "'n call \<Rightarrow> string list" where
  "fixedFieldNames
     (GenerateImage prompt model negativePrompt image' strength seed aspectRatio outputFormat
        stylePreset) =
     [''prompt'', ''output_format'', ''model'', ''mode'', ''image'']"
| "fixedFieldNames (EraseObject image' mask' outputFormat) =
     [''image'', ''mask'', ''output_format'']"
| "fixedFieldNames (Inpaint image' prompt mask' negativePrompt seed outputFormat) =
     [''image'', ''prompt'', ''mask'', ''output_format'']"
| "fixedFieldNames (Outpaint image' prompt left right top' bottom creativity outputFormat) =
     [''image'', ''output_format'']"
| "fixedFieldNames
     (SearchAndReplace image' prompt searchPrompt negativePrompt seed outputFormat) =
     [''image'', ''prompt'', ''search_prompt'', ''output_format'']"
| "fixedFieldNames
     (SearchAndRecolor image' prompt selectPrompt negativePrompt seed outputFormat) =
     [''image'', ''prompt'', ''select_prompt'', ''output_format'']"
| "fixedFieldNames (RemoveBackground image' outputFormat) = [''image'', ''output_format'']"
| "fixedFieldNames
     (ReplaceBackground image' backgroundPrompt foregroundPrompt negativePrompt
        lightSourceDirection lightSourceStrength outputFormat) =
     [''image'', ''background_prompt'', ''output_format'']"
| "fixedFieldNames
     (UpscaleImage image' mode prompt negativePrompt seed creativity outputFormat) =
     [''image'', ''output_format'']"
| "fixedFieldNames
     (ControlSketch image' prompt negativePrompt seed controlStrength outputFormat) =
     [''image'', ''prompt'', ''output_format'']"
| "fixedFieldNames
     (ControlStructure image' prompt negativePrompt seed controlStrength outputFormat) =
     [''image'', ''prompt'', ''output_format'']"
| "fixedFieldNames (ControlStyle image' prompt negativePrompt seed fidelity outputFormat) =
     [''image'', ''prompt'', ''output_format'']"
| "fixedFieldNames
     (StyleTransfer initImage styleImage prompt negativePrompt seed outputFormat) =
     [''init_image'', ''style_image'', ''output_format'']"
| "fixedFieldNames
     (Generate3D image' model textureResolution foregroundRatio remesh guidanceScale) =
     [''image'']"

section \<open>The client's methods\<close>

datatype client_result = ImageResult image_result | ThreeDResult string string

definition asImage ::
  "(js_error + image_result) \<times> event list \<Rightarrow> (js_error + client_result) \<times> event list" where
  "asImage r = (case r of (Inl e, tr) \<Rightarrow> (Inl e, tr) | (Inr img, tr) \<Rightarrow> (Inr (ImageResult img), tr))"

text \<open>
  What each method does with the form it has built. \<^verbatim>\<open>upscaleImage\<close> polls in the
  creative mode; \<^verbatim>\<open>generate3D\<close> posts with \<^verbatim>\<open>postRaw\<close> and reads the mesh itself; every
  other method ends in \<^verbatim>\<open>postImage\<close>.
\<close>

fun send ::
  "runtime \<Rightarrow> config \<Rightarrow> 'n call \<Rightarrow> form \<Rightarrow> event list
     \<Rightarrow> (js_error + client_result) \<times> event list" where
  "send net cfg
     (GenerateImage prompt model negativePrompt image' strength seed aspectRatio outputFormat
        stylePreset) form tr =
     asImage (postImage net cfg (GENERATION_MODELS (orElse model Core)) form tr)"
| "send net cfg (EraseObject image' mask' outputFormat) form tr =
     asImage (postImage net cfg (EDIT_ENDPOINTS Erase) form tr)"
| "send net cfg (Inpaint image' prompt mask' negativePrompt seed outputFormat) form tr =
     asImage (postImage net cfg (EDIT_ENDPOINTS InpaintOp) form tr)"
| "send net cfg (Outpaint image' prompt left right top' bottom creativity outputFormat) form tr =
     asImage (postImage net cfg (EDIT_ENDPOINTS OutpaintOp) form tr)"
| "send net cfg (SearchAndReplace image' prompt searchPrompt negativePrompt seed outputFormat)
     form tr =
     asImage (postImage net cfg (EDIT_ENDPOINTS SearchReplace) form tr)"
| "send net cfg (SearchAndRecolor image' prompt selectPrompt negativePrompt seed outputFormat)
     form tr =
     asImage (postImage net cfg (EDIT_ENDPOINTS SearchRecolor) form tr)"
| "send net cfg (RemoveBackground image' outputFormat) form tr =
     asImage (postImage net cfg (EDIT_ENDPOINTS RemoveBg) form tr)"
| "send net cfg
     (ReplaceBackground image' backgroundPrompt foregroundPrompt negativePrompt
        lightSourceDirection lightSourceStrength outputFormat) form tr =
     asImage (postImage net cfg (EDIT_ENDPOINTS ReplaceBgRelight) form tr)"
| "send net cfg (UpscaleImage image' mode prompt negativePrompt seed creativity outputFormat)
     form tr =
     (if orElse mode Fast = Creative
      then asImage (postImageAsync net cfg (UPSCALE_ENDPOINTS (orElse mode Fast)) form tr)
      else asImage (postImage net cfg (UPSCALE_ENDPOINTS (orElse mode Fast)) form tr))"
| "send net cfg (ControlSketch image' prompt negativePrompt seed controlStrength outputFormat)
     form tr =
     asImage (postImage net cfg (CONTROL_ENDPOINTS Sketch) form tr)"
| "send net cfg (ControlStructure image' prompt negativePrompt seed controlStrength outputFormat)
     form tr =
     asImage (postImage net cfg (CONTROL_ENDPOINTS Structure) form tr)"
| "send net cfg (ControlStyle image' prompt negativePrompt seed fidelity outputFormat) form tr =
     asImage (postImage net cfg (CONTROL_ENDPOINTS Style) form tr)"
| "send net cfg (StyleTransfer initImage styleImage prompt negativePrompt seed outputFormat)
     form tr =
     asImage (postImage net cfg (CONTROL_ENDPOINTS StyleTransferOp) form tr)"
| "send net cfg (Generate3D image' model textureResolution foregroundRatio remesh guidanceScale)
     form tr =
     (case postRaw net cfg (THREE_D_ENDPOINTS (orElse model StableFast3d)) form tr of
        (Rejects e, tr1) \<Rightarrow> (Inl e, tr1)
      | (Responds response, tr1) \<Rightarrow>
          if \<not> ok response
          then (Inl (Error (''3D generation failed (HTTP '' @ decimal (status response) @ ''): ''
                            @ bodyText response)), tr1)
          else (Inr (ThreeDResult (payload response) ''glb''), tr1))"

text \<open>A method of the client: build the form, then send it.\<close>

definition perform ::
  "('n \<Rightarrow> string) \<Rightarrow> platform \<Rightarrow> runtime \<Rightarrow> config \<Rightarrow> 'n call \<Rightarrow> event list
     \<Rightarrow> (js_error + client_result) \<times> event list" where
  "perform toStr fs net cfg c tr =
     (case requestForm toStr fs c of
        Inl e \<Rightarrow> (Inl e, tr)
      | Inr form \<Rightarrow> send net cfg c form tr)"

definition balanceRequest :: "config \<Rightarrow> request" where
  "balanceRequest cfg =
     \<lparr>url = API_BASE @ ''/v1/user/balance'', httpMethod = GET,
      authorization = ''Bearer '' @ apiKey cfg, accept = None,
      body = None, signal = timeout cfg\<rparr>"

text \<open>\<^verbatim>\<open>checkBalance\<close>; the credits are the \<^verbatim>\<open>credits\<close> property, if any.\<close>

definition checkBalance ::
  "runtime \<Rightarrow> config \<Rightarrow> event list \<Rightarrow> (js_error + json_value option) \<times> event list" where
  "checkBalance net cfg tr =
     (case fetchWithTimeout net (balanceRequest cfg) tr of
        (Rejects e, tr1) \<Rightarrow> (Inl e, tr1)
      | (Responds response, tr1) \<Rightarrow>
          if \<not> ok response
          then (Inl (Error (''Failed to check balance (HTTP '' @ decimal (status response)
                            @ ''): '' @ bodyText response)), tr1)
          else (case json response of
                  JsonThrows e \<Rightarrow> (Inl e, tr1)
                | JsonObject d \<Rightarrow> (Inr (d ''credits''), tr1)))"

section \<open>Tool handlers\<close>














text \<open>
  A reply: its content items and the error flag, which the source sets in error replies
  only. The image item carries the bytes of the result (the source encodes them in base
  64) and the MIME type.
\<close>

datatype content_item = ImageItem string string | TextItem string

record tool_reply =
  content :: "content_item list"
  isError :: bool



section \<open>Kinds of request\<close>

text \<open>
  The calls that answer with JSON or a status rather than with the binary result of a
  synchronous operation, told apart by what is sent: the submission of an asynchronous
  job, a poll of the results endpoint, and the balance check.
\<close>

definition isJobSubmission :: "request \<Rightarrow> bool" where
  "isJobSubmission r =
     (httpMethod r = POST \<and> url r = API_BASE @ ''/v2beta/stable-image/upscale/creative'')"

definition isResultsPoll :: "request \<Rightarrow> bool" where
  "isResultsPoll r =
     (httpMethod r = GET \<and> startsWith (url r) (API_BASE @ ''/v2beta/results/''))"

definition isBalanceCheck :: "request \<Rightarrow> bool" where
  "isBalanceCheck r = (httpMethod r = GET \<and> url r = API_BASE @ ''/v1/user/balance'')"

definition isStatusCall :: "request \<Rightarrow> bool" where
  "isStatusCall r = (isJobSubmission r \<or> isResultsPoll r \<or> isBalanceCheck r)"

text \<open>
  The other requests of the client: a form posted for an image, or to one of the two
  endpoints that answer with a mesh.
\<close>

definition isBinaryCall :: "request \<Rightarrow> bool" where
  "isBinaryCall r =
     (httpMethod r = POST \<and> body r \<noteq> None
      \<and> (accept r = Some ''image/*''
           \<or> url r = API_BASE @ ''/v2beta/3d/stable-fast-3d''
           \<or> url r = API_BASE @ ''/v2beta/3d/stable-point-aware-3d''))"

text \<open>
  The deadline of a request: the base time-out for a status call, three times the base
  time-out for a binary call, every request being of exactly one of the two kinds.
\<close>

definition deadlineRule :: "config \<Rightarrow> request \<Rightarrow> bool" where
  "deadlineRule cfg r =
     ((isBinaryCall r \<longleftrightarrow> \<not> isStatusCall r)
      \<and> signal r = (if isBinaryCall r then js_times (timeout cfg) (Num 3) else timeout cfg))"

section \<open>Example inputs\<close>

definition exampleConfig :: config where
  "exampleConfig = \<lparr>apiKey = ''sk-test'', timeout = Num 60000,
     outputDir = ''./generated-images'', output3dDir = ''./generated-3d''\<rparr>"

definition acceptedResponse :: response where
  "acceptedResponse = \<lparr>status = 200, headers = (\<lambda>h. None), payload = ''{id:abc123}'',
     bodyText = ''{id:abc123}'', json = JsonObject [''id'' \<mapsto> JsonValue True ''abc123'']\<rparr>"

definition pendingResponse :: response where
  "pendingResponse = \<lparr>status = 202, headers = (\<lambda>h. None), payload = [], bodyText = [],
     json = JsonObject Map.empty\<rparr>"

definition readyResponse :: response where
  "readyResponse = \<lparr>status = 200,
     headers = (\<lambda>h. if h = ''content-type'' then Some ''image/webp'' else None),
     payload = ''RIFF'', bodyText = ''RIFF'', json = JsonThrows (Error ''Unexpected token'')\<rparr>"

text \<open>A runtime that accepts the delays Node accepts and answers as the function given.\<close>

definition exampleRuntime :: "(nat \<Rightarrow> request \<Rightarrow> fetch_outcome) \<Rightarrow> runtime" where
  "exampleRuntime answers =
     \<lparr>respond = answers,
      abortSignalTimeout =
        (\<lambda>delay. case delay of
                    Num i \<Rightarrow> if 0 \<le> i \<and> i \<le> 4294967295 then None
                             else Some \<lparr>name = ''RangeError'', message = ''out of range''\<rparr>
                  | _ \<Rightarrow> Some \<lparr>name = ''RangeError'', message = ''out of range''\<rparr>),
      numberText =
        (\<lambda>x. case x of
                NaN \<Rightarrow> ''NaN''
              | Num i \<Rightarrow> if i < 0 then ''-'' @ decimal (nat (- i)) else decimal (nat i)
              | Infinity \<Rightarrow> ''Infinity''
              | MinusInfinity \<Rightarrow> ''-Infinity'')\<rparr>"

definition readyOnFourthPoll :: runtime where
  "readyOnFourthPoll =
     exampleRuntime
       (\<lambda>k req. if k = 0 then Responds acceptedResponse
                 else if k < 4 then Responds pendingResponse
                 else Responds readyResponse)"

definition alwaysPending :: runtime where
  "alwaysPending =
     exampleRuntime
       (\<lambda>k req. if k = 0 then Responds acceptedResponse else Responds pendingResponse)"

definition examplePlatform :: platform where
  "examplePlatform =
     \<lparr>resolve = (\<lambda>p. if startsWith p ''/'' then p else ''/work/'' @ p),
      resolveIn = (\<lambda>d f. ''/work/'' @ d @ ''/'' @ f),
      dirname = (\<lambda>p. ''/work/out''),
      existsSync = (\<lambda>p. p = ''/work/cat.JPG''),
      readFileSync = (\<lambda>p. if p = ''/work/cat.JPG'' then Inr ''JFIF''
                           else Inl \<lparr>name = ''Error'', message = ''ENOENT''\<rparr>),
      now = ''2025-01-01T00:00:00.000Z''\<rparr>"

definition errorResponse :: "nat \<Rightarrow> response" where
  "errorResponse code =
     \<lparr>status = code, headers = (\<lambda>h. None), payload = ''unauthorized'',
      bodyText = ''unauthorized'', json = JsonThrows (Error ''Unexpected token'')\<rparr>"

definition answering :: "response \<Rightarrow> runtime" where
  "answering r = exampleRuntime (\<lambda>k req. Responds r)"

section \<open>Properties of the asynchronous poller\<close>

lemma sent_append: "sent (a @ b) = sent a @ sent b" by (simp add: sent_def)
lemma sent_Fetch: "sent [Fetch r] = [r]" by (simp add: sent_def)
lemma sent_Sleep: "sent [Sleep n] = []" by (simp add: sent_def)

lemma signal_pollRequest [simp]: "signal (pollRequest cfg jobId) = timeout cfg"
  by (simp add: pollRequest_def)

lemma signal_submitRequest [simp]: "signal (submitRequest cfg endpoint form) = timeout cfg"
  by (simp add: submitRequest_def)

lemma fetchWithTimeout_accepted:
  "abortSignalTimeout net (signal req) = None \<Longrightarrow> fetchWithTimeout net req tr = fetch net req tr"
  by (simp add: fetchWithTimeout_def)

lemma fetchWithTimeout_refused:
  "abortSignalTimeout net (signal req) = Some e \<Longrightarrow> fetchWithTimeout net req tr = (Rejects e, tr)"
  by (simp add: fetchWithTimeout_def)

text \<open>With a delay the runtime refuses, the poller throws before anything is sent.\<close>

lemma postImageAsync_refused_delay:
  "abortSignalTimeout net (timeout cfg) = Some e \<Longrightarrow>
     postImageAsync net cfg endpoint form tr = (Inl e, tr)"
  by (simp add: postImageAsync_def fetchWithTimeout_refused)

lemma pollLoop_pending:
  "\<lbrakk>abortSignalTimeout net (timeout cfg) = None; attempt + n \<le> maxAttempts;
    \<forall>k<n. \<exists>r. respond net (length (sent tr) + k) (pollRequest cfg jobId) = Responds r \<and> status r = 202\<rbrakk>
   \<Longrightarrow> pollLoop net cfg jobId attempt tr =
       pollLoop net cfg jobId (attempt + n)
         (tr @ concat (replicate n [Sleep pollInterval, Fetch (pollRequest cfg jobId)]))"
proof (induction n arbitrary: attempt tr)
  case 0
  then show ?case by simp
next
  case (Suc n)
  let ?round = "[Sleep pollInterval, Fetch (pollRequest cfg jobId)]"
  from Suc.prems(3) obtain r where r: "respond net (length (sent tr)) (pollRequest cfg jobId) = Responds r" "status r = 202"
    by force
  have lt: "attempt < maxAttempts" using Suc.prems(2) by simp
  have step: "pollLoop net cfg jobId attempt tr = pollLoop net cfg jobId (attempt + 1) (tr @ ?round)"
    using r lt Suc.prems(1)
    by (subst pollLoop.simps) (simp add: fetchWithTimeout_accepted fetch_def sent_append sent_Sleep)
  have rest: "\<forall>k<n. \<exists>r. respond net (length (sent (tr @ ?round)) + k) (pollRequest cfg jobId) = Responds r \<and> status r = 202"
  proof (intro allI impI)
    fix k assume "k < n"
    then have "Suc k < Suc n" by simp
    with Suc.prems(3) obtain r' where "respond net (length (sent tr) + Suc k) (pollRequest cfg jobId) = Responds r'" "status r' = 202"
      by blast
    then show "\<exists>r. respond net (length (sent (tr @ ?round)) + k) (pollRequest cfg jobId) = Responds r \<and> status r = 202"
      by (simp add: sent_append sent_def)
  qed
  have "pollLoop net cfg jobId (attempt + 1) (tr @ ?round) =
        pollLoop net cfg jobId (attempt + 1 + n) ((tr @ ?round) @ concat (replicate n ?round))"
    using Suc.prems(2) by (intro Suc.IH[OF Suc.prems(1) _ rest]) simp
  with step show ?case by simp
qed


lemma rounds_snoc: "concat (replicate n xs) @ xs = concat (replicate (Suc n) xs)"
  by (induction n) simp_all

lemma pollLoop_exhausted:
  "pollLoop net cfg jobId maxAttempts tr =
     (Inl (Error (''Async generation timed out after ''
                  @ decimal (maxAttempts * pollInterval div 1000) @ '' seconds'')), tr)"
  by (subst pollLoop.simps) simp

lemma timeout_text: "decimal (maxAttempts * pollInterval div 1000) = ''300''"
  by (simp add: maxAttempts_def pollInterval_def decimal.simps digit_def)

lemma postImageAsync_submitted:
  assumes "abortSignalTimeout net (timeout cfg) = None"
    and "respond net (length (sent tr)) (submitRequest cfg endpoint form) = Responds submitResponse"
    and "ok submitResponse" and "json submitResponse = JsonObject submitData"
    and "submitData ''id'' = Some (JsonValue True jobId)"
  shows "postImageAsync net cfg endpoint form tr =
           pollLoop net cfg jobId 0 (tr @ [Fetch (submitRequest cfg endpoint form)])"
  using assms by (simp add: postImageAsync_def fetchWithTimeout_accepted fetch_def)

text \<open>
  C1. With a time-out that \<^verbatim>\<open>AbortSignal.timeout\<close> accepts, after a submission that
  returns a job identifier (a truthy \<^verbatim>\<open>id\<close>), the poller waits one interval of 5000 ms
  before each poll. While the polls are answered with status 202 the loop goes on; the
  first answer that is a success other than 202, received within the 60 attempts, ends
  it: its body is the result's data and its content type gives the format. After \<open>n\<close>
  pending answers the poller has sent \<open>n + 1\<close> polls and waited \<open>n + 1\<close> intervals.
\<close>

theorem async_poller_returns_first_ready_response:
  assumes accepted: "abortSignalTimeout net (timeout cfg) = None"
    and submitted: "respond net (length (sent tr)) (submitRequest cfg endpoint form) = Responds submitResponse"
      "ok submitResponse" "json submitResponse = JsonObject submitData"
      "submitData ''id'' = Some (JsonValue True jobId)"
    and pending: "\<forall>k<n. \<exists>r. respond net (length (sent tr) + 1 + k) (pollRequest cfg jobId) = Responds r
                        \<and> status r = 202"
    and ready: "respond net (length (sent tr) + 1 + n) (pollRequest cfg jobId) = Responds pollResponse"
      "status pollResponse \<noteq> 202" "ok pollResponse"
    and within: "n < maxAttempts"
  shows "postImageAsync net cfg endpoint form tr =
           (Inr (decodeImage pollResponse),
            tr @ Fetch (submitRequest cfg endpoint form)
               # concat (replicate (n + 1) [Sleep 5000, Fetch (pollRequest cfg jobId)]))
         \<and> data (decodeImage pollResponse) = payload pollResponse
         \<and> format (decodeImage pollResponse) =
             (let contentType = (case headers pollResponse ''content-type'' of
                                   None \<Rightarrow> ''image/png''
                                 | Some c \<Rightarrow> if c = [] then ''image/png'' else c)
              in if includesStr contentType ''jpeg'' then ''jpeg''
                 else if includesStr contentType ''webp'' then ''webp'' else ''png'')"
proof -
  let ?submit = "submitRequest cfg endpoint form"
  let ?round = "[Sleep pollInterval, Fetch (pollRequest cfg jobId)]"
  let ?tr1 = "tr @ [Fetch ?submit]"
  let ?trn = "?tr1 @ concat (replicate n ?round)"
  have len1: "length (sent ?tr1) = length (sent tr) + 1"
    by (simp add: sent_append sent_Fetch)
  have lenn: "length (sent ?trn) = length (sent tr) + 1 + n"
    by (induction n) (simp_all add: sent_append sent_Fetch sent_def)
  have "postImageAsync net cfg endpoint form tr = pollLoop net cfg jobId 0 ?tr1"
    using accepted submitted by (rule postImageAsync_submitted)
  also have "\<dots> = pollLoop net cfg jobId (0 + n) ?trn"
    using accepted pending within by (intro pollLoop_pending) (simp_all add: len1)
  also have "\<dots> = (Inr (decodeImage pollResponse), ?trn @ ?round)"
  proof -
    have "length (sent (?trn @ [Sleep pollInterval])) = length (sent tr) + 1 + n"
      unfolding sent_append [of ?trn] sent_Sleep using lenn by simp
    then have "fetchWithTimeout net (pollRequest cfg jobId) (?trn @ [Sleep pollInterval]) =
        (Responds pollResponse, ?trn @ ?round)"
      using ready(1) accepted by (simp add: fetchWithTimeout_accepted fetch_def)
    then show ?thesis
      using ready(2,3) within by (subst pollLoop.simps) simp
  qed
  finally have run: "postImageAsync net cfg endpoint form tr =
      (Inr (decodeImage pollResponse), ?trn @ ?round)" .
  have shape: "?trn @ ?round = tr @ Fetch ?submit # concat (replicate (n + 1) [Sleep 5000, Fetch (pollRequest cfg jobId)])"
    using rounds_snoc [of n ?round] by (simp add: pollInterval_def)
  show ?thesis
    unfolding run shape by (simp add: decodeImage_def Let_def)
qed


theorem async_poller_returns_first_ready_response_witness:
  "postImageAsync readyOnFourthPoll exampleConfig ''/v2beta/stable-image/upscale/creative'' [] [] =
     (Inr \<lparr>data = ''RIFF'', format = ''webp'', resultSeed = None, finishReason = None\<rparr>,
      [Fetch (submitRequest exampleConfig ''/v2beta/stable-image/upscale/creative'' []),
       Sleep 5000, Fetch (pollRequest exampleConfig ''abc123''),
       Sleep 5000, Fetch (pollRequest exampleConfig ''abc123''),
       Sleep 5000, Fetch (pollRequest exampleConfig ''abc123''),
       Sleep 5000, Fetch (pollRequest exampleConfig ''abc123'')])"
proof -
  have three: "(3::nat) < maxAttempts" by (simp add: maxAttempts_def)
  have accepted: "abortSignalTimeout readyOnFourthPoll (timeout exampleConfig) = None"
    by (simp add: readyOnFourthPoll_def exampleRuntime_def exampleConfig_def)
  have pending: "\<forall>k<3. \<exists>r. respond readyOnFourthPoll (length (sent []) + 1 + k)
      (pollRequest exampleConfig ''abc123'') = Responds r \<and> status r = 202"
    by (simp add: readyOnFourthPoll_def exampleRuntime_def pendingResponse_def sent_def)
  have rounds: "replicate (3 + 1) x = [x, x, x, x]" for x :: "event list"
    by (simp add: numeral_3_eq_3)
  have decoded: "decodeImage readyResponse =
      \<lparr>data = ''RIFF'', format = ''webp'', resultSeed = None, finishReason = None\<rparr>"
    by (simp add: decodeImage_def readyResponse_def startsWith_def)
  show ?thesis
    using async_poller_returns_first_ready_response
      [of readyOnFourthPoll exampleConfig "[]" "''/v2beta/stable-image/upscale/creative''" "[]"
          acceptedResponse "[''id'' \<mapsto> JsonValue True ''abc123'']" "''abc123''" 3 readyResponse,
       OF accepted _ _ _ _ pending _ _ _ three]
    unfolding rounds decoded
    by (simp add: readyOnFourthPoll_def exampleRuntime_def acceptedResponse_def readyResponse_def
        ok_def sent_def)
qed

text \<open>
  C2. With a time-out that \<^verbatim>\<open>AbortSignal.timeout\<close> accepts and a submission that returns
  a job identifier (a truthy \<^verbatim>\<open>id\<close>), when every poll is answered with status 202 the poller stops after
  exactly 60 polls and throws its own time-out error: an \<^verbatim>\<open>Error\<close> whose message names the 300
  seconds, which is neither the platform's \<^verbatim>\<open>TimeoutError\<close> nor of the form of the
  transport errors, and carries no HTTP status.
\<close>

theorem async_poller_times_out_after_sixty_polls:
  assumes accepted: "abortSignalTimeout net (timeout cfg) = None"
    and submitted: "respond net (length (sent tr)) (submitRequest cfg endpoint form) = Responds submitResponse"
      "ok submitResponse" "json submitResponse = JsonObject submitData"
      "submitData ''id'' = Some (JsonValue True jobId)"
    and pending: "\<forall>k<60. \<exists>r. respond net (length (sent tr) + 1 + k) (pollRequest cfg jobId) = Responds r
                         \<and> status r = 202"
  shows "postImageAsync net cfg endpoint form tr =
           (Inl (Error ''Async generation timed out after 300 seconds''),
            tr @ Fetch (submitRequest cfg endpoint form)
               # concat (replicate 60 [Sleep 5000, Fetch (pollRequest cfg jobId)]))
         \<and> name (Error ''Async generation timed out after 300 seconds'') \<noteq> ''TimeoutError''
         \<and> \<not> includesStr (message (Error ''Async generation timed out after 300 seconds'')) ''HTTP''
         \<and> (\<forall>code text.
               message (Error ''Async generation timed out after 300 seconds'')
                 \<noteq> ''Stability AI error (HTTP '' @ decimal code @ ''): '' @ text
             \<and> message (Error ''Async generation timed out after 300 seconds'')
                 \<noteq> ''Polling failed (HTTP '' @ decimal code @ ''): '' @ text)"
proof -
  let ?submit = "submitRequest cfg endpoint form"
  let ?round = "[Sleep pollInterval, Fetch (pollRequest cfg jobId)]"
  let ?tr1 = "tr @ [Fetch ?submit]"
  have len1: "length (sent ?tr1) = length (sent tr) + 1"
    by (simp add: sent_append sent_Fetch)
  have "postImageAsync net cfg endpoint form tr = pollLoop net cfg jobId 0 ?tr1"
    using accepted submitted by (rule postImageAsync_submitted)
  also have "\<dots> = pollLoop net cfg jobId (0 + maxAttempts) (?tr1 @ concat (replicate maxAttempts ?round))"
    using accepted pending by (intro pollLoop_pending) (simp_all add: len1 maxAttempts_def)
  also have "\<dots> = (Inl (Error ''Async generation timed out after 300 seconds''),
      ?tr1 @ concat (replicate maxAttempts ?round))"
    by (simp add: pollLoop_exhausted timeout_text)
  finally have run: "postImageAsync net cfg endpoint form tr =
      (Inl (Error ''Async generation timed out after 300 seconds''),
       tr @ Fetch ?submit # concat (replicate 60 [Sleep 5000, Fetch (pollRequest cfg jobId)]))"
    by (simp add: maxAttempts_def pollInterval_def)
  have distinct: "\<not> includesStr ''Async generation timed out after 300 seconds'' ''HTTP''"
    by (simp add: startsWith_def)
  show ?thesis
    using run distinct by (simp add: Error_def)
qed

theorem async_poller_times_out_after_sixty_polls_witness:
  "postImageAsync alwaysPending exampleConfig ''/v2beta/stable-image/upscale/creative'' [] [] =
     (Inl \<lparr>name = ''Error'', message = ''Async generation timed out after 300 seconds''\<rparr>,
      Fetch (submitRequest exampleConfig ''/v2beta/stable-image/upscale/creative'' [])
        # concat (replicate 60 [Sleep 5000, Fetch (pollRequest exampleConfig ''abc123'')]))"
proof -
  have accepted: "abortSignalTimeout alwaysPending (timeout exampleConfig) = None"
    by (simp add: alwaysPending_def exampleRuntime_def exampleConfig_def)
  have pending: "\<forall>k<60. \<exists>r. respond alwaysPending (length (sent []) + 1 + k)
      (pollRequest exampleConfig ''abc123'') = Responds r \<and> status r = 202"
    by (simp add: alwaysPending_def exampleRuntime_def pendingResponse_def sent_def)
  show ?thesis
    using async_poller_times_out_after_sixty_polls
      [of alwaysPending exampleConfig "[]" "''/v2beta/stable-image/upscale/creative''" "[]"
          acceptedResponse "[''id'' \<mapsto> JsonValue True ''abc123'']" "''abc123''",
       OF accepted _ _ _ _ pending]
    by (simp add: alwaysPending_def exampleRuntime_def acceptedResponse_def ok_def sent_def
        Error_def)
qed


section \<open>Properties of the request builder\<close>

lemma isTruthy_Some [simp]: "isTruthy (Some s) \<longleftrightarrow> s \<noteq> []"
  by (simp add: isTruthy_def)

lemma isTruthy_None [simp]: "\<not> isTruthy None"
  by (simp add: isTruthy_def)

declare requestForm.simps [simp del]

lemma succeeds_iff: "succeeds r \<longleftrightarrow> (\<exists>f. r = Inr f)"
  by (cases r) (simp_all add: succeeds_def)

lemma entries_Inr [simp]: "entries (Inr f) = set f"
  by (simp add: entries_def)

lemma entries_Inl [simp]: "entries (Inl e) = {}"
  by (simp add: entries_def)

lemma succeeds_Inr [simp]: "succeeds (Inr f)"
  by (simp add: succeeds_def)

lemma succeeds_Inl [simp]: "\<not> succeeds (Inl e)"
  by (simp add: succeeds_def)

lemma succeeds_inOrder [simp]: "succeeds (inOrder ps) \<longleftrightarrow> (\<forall>p\<in>set ps. succeeds p)"
proof (induction ps)
  case Nil
  show ?case by simp
next
  case (Cons p ps)
  then show ?case
    by (cases p; cases "inOrder ps") auto
qed

lemma entries_inOrder:
  "entries (inOrder ps) = (if succeeds (inOrder ps) then (\<Union>p\<in>set ps. entries p) else {})"
proof (induction ps)
  case Nil
  show ?case by simp
next
  case (Cons p ps)
  show ?case
  proof (cases p)
    case (Inl e)
    then show ?thesis by simp
  next
    case (Inr f)
    show ?thesis
    proof (cases "inOrder ps")
      case (Inl e)
      then have "\<not> succeeds (inOrder ps)" by simp
      then show ?thesis using Inl Inr by simp
    next
      case inner: (Inr g)
      then have "succeeds (inOrder ps)" by simp
      then show ?thesis using Cons.IH inner Inr by auto
    qed
  qed
qed

lemma textField_succeeds [simp]: "succeeds (textField n v)"
  by (simp add: textField_def)

lemma textFieldIf_succeeds [simp]: "succeeds (textFieldIf n v)"
  by (simp add: textFieldIf_def split: option.splits)

lemma numberFieldIf_succeeds [simp]: "succeeds (numberFieldIf toStr n v)"
  by (simp add: numberFieldIf_def split: option.splits)

lemma outputFormatField_succeeds [simp]: "succeeds (outputFormatField v)"
  by (simp add: outputFormatField_def)

lemma fileField_succeeds [simp]: "succeeds (fileField fs n p) \<longleftrightarrow> succeeds (map_sum id (\<lambda>b. []) (fileBlob fs p))"
  by (simp add: fileField_def split: sum.splits)

lemma in_textField [simp]: "x \<in> entries (textField n v) \<longleftrightarrow> x = (n, Text v)"
  by (simp add: textField_def)

lemma in_textFieldIf [simp]:
  "x \<in> entries (textFieldIf n v) \<longleftrightarrow> (\<exists>s. v = Some s \<and> s \<noteq> [] \<and> x = (n, Text s))"
  by (auto simp: textFieldIf_def split: option.splits)

lemma in_numberFieldIf [simp]:
  "x \<in> entries (numberFieldIf toStr n v) \<longleftrightarrow> (\<exists>k. v = Some k \<and> x = (n, Text (toStr k)))"
  by (auto simp: numberFieldIf_def split: option.splits)

lemma in_outputFormatField [simp]:
  "x \<in> entries (outputFormatField v) \<longleftrightarrow>
     x = (''output_format'', Text (case v of None \<Rightarrow> ''png'' | Some f \<Rightarrow> outputFormatName f))"
  by (simp add: outputFormatField_def)

lemma in_fileField [simp]:
  "x \<in> entries (fileField fs n p) \<longleftrightarrow> (\<exists>blob. fileBlob fs p = Inr blob \<and> x = (n, blob))"
  by (auto simp: fileField_def split: sum.splits)

lemma in_fileFieldIf [simp]:
  "x \<in> entries (fileFieldIf fs n v) \<longleftrightarrow>
     (\<exists>p blob. v = Some p \<and> p \<noteq> [] \<and> fileBlob fs p = Inr blob \<and> x = (n, blob))"
  by (auto simp: fileFieldIf_def split: option.splits)

lemma fileBlob_Inr:
  "fileBlob fs p = Inr blob \<longleftrightarrow>
     existsSync fs (resolve fs p)
     \<and> (\<exists>buffer. readFileSync fs (resolve fs p) = Inr buffer
                 \<and> blob = Blob (getMimeType (resolve fs p)) buffer)"
  by (auto simp: fileBlob_def Let_def split: sum.splits)




lemma generate_sd35_entries:
  assumes "startsWith (generationModelName m) ''sd3.5''"
    and "requestForm toStr fs
           (GenerateImage prompt (Some m) negativePrompt image' strength seed aspectRatio
              outputFormat stylePreset) = Inr form"
  shows "(''model'', Text (generationModelName m)) \<in> set form"
    and "(''mode'', p) \<in> set form \<longleftrightarrow>
           p = Text (if isTruthy image' then ''image-to-image'' else ''text-to-image'')"
    and "(''image'', p) \<in> set form \<longleftrightarrow>
           (\<exists>path. image' = Some path \<and> path \<noteq> [] \<and> fileBlob fs path = Inr p)"
    and "(''strength'', p) \<in> set form \<longleftrightarrow>
           isTruthy image' \<and> (\<exists>x. strength = Some x \<and> p = Text (toStr x))"
proof -
  let ?call = "GenerateImage prompt (Some m) negativePrompt image' strength seed aspectRatio
              outputFormat stylePreset"
  have content: "set form = entries (requestForm toStr fs ?call)"
    by (simp only: assms(2) entries_Inr)
  have ok: "succeeds (requestForm toStr fs ?call)"
    by (simp only: assms(2) succeeds_Inr)
  have m: "orElse (Some m) Core = m"
    by (simp add: orElse_def)
  from ok have inner: "isTruthy image' \<Longrightarrow> succeeds (fileFieldIf fs ''image'' image')"
    by (simp add: requestForm.simps m assms(1))
  show "(''model'', Text (generationModelName m)) \<in> set form"
    unfolding content using ok
    by (simp add: requestForm.simps m assms(1) entries_inOrder)
  show "(''mode'', p) \<in> set form \<longleftrightarrow>
           p = Text (if isTruthy image' then ''image-to-image'' else ''text-to-image'')"
    unfolding content using ok inner
    by (auto simp: requestForm.simps m assms(1) entries_inOrder)
  show "(''image'', p) \<in> set form \<longleftrightarrow>
           (\<exists>path. image' = Some path \<and> path \<noteq> [] \<and> fileBlob fs path = Inr p)"
    unfolding content using ok inner
    by (auto simp: requestForm.simps m assms(1) entries_inOrder isTruthy_def)
  show "(''strength'', p) \<in> set form \<longleftrightarrow>
           isTruthy image' \<and> (\<exists>x. strength = Some x \<and> p = Text (toStr x))"
    unfolding content using ok inner
    by (auto simp: requestForm.simps m assms(1) entries_inOrder)
qed

text \<open>
  C5. A generation request for the model \<^verbatim>\<open>sd3.5-large\<close> without an image builds a form
  with \<^verbatim>\<open>mode=text-to-image\<close> and \<^verbatim>\<open>model=sd3.5-large\<close> and no \<^verbatim>\<open>image\<close> or
  \<^verbatim>\<open>strength\<close> entry. With an image path whose file can be read it builds a form with
  \<^verbatim>\<open>mode=image-to-image\<close>, the model, the image as a binary part, and a \<^verbatim>\<open>strength\<close>
  entry exactly when the caller gave a strength.
\<close>

theorem sd35_large_generation_form:
  "(\<exists>form. requestForm toStr fs
             (GenerateImage prompt (Some Sd35Large) negativePrompt None strength seed aspectRatio
                outputFormat stylePreset) = Inr form
           \<and> (''mode'', Text ''text-to-image'') \<in> set form
           \<and> (''model'', Text ''sd3.5-large'') \<in> set form
           \<and> ''image'' \<notin> fst ` set form \<and> ''strength'' \<notin> fst ` set form)
   \<and> (path \<noteq> [] \<and> fileBlob fs path = Inr blob \<longrightarrow>
        (\<exists>form. requestForm toStr fs
                  (GenerateImage prompt (Some Sd35Large) negativePrompt (Some path) strength seed
                     aspectRatio outputFormat stylePreset) = Inr form
           \<and> (''mode'', Text ''image-to-image'') \<in> set form
           \<and> (''mode'', Text ''text-to-image'') \<notin> set form
           \<and> (''model'', Text ''sd3.5-large'') \<in> set form
           \<and> (''image'', blob) \<in> set form
           \<and> (\<exists>buffer. blob = Blob (getMimeType (resolve fs path)) buffer)
           \<and> (\<forall>p. (''strength'', p) \<in> set form
                      \<longleftrightarrow> (\<exists>x. strength = Some x \<and> p = Text (toStr x)))))"
proof (intro conjI impI)
  let ?plain = "GenerateImage prompt (Some Sd35Large) negativePrompt None strength seed aspectRatio
                outputFormat stylePreset"
  have sd: "startsWith (generationModelName Sd35Large) ''sd3.5''"
    by (simp add: startsWith_def)
  have "succeeds (requestForm toStr fs ?plain)"
    by (simp add: requestForm.simps orElse_def startsWith_def isTruthy_def)
  then obtain form where form: "requestForm toStr fs ?plain = Inr form"
    by (auto simp: succeeds_iff)
  note facts = generate_sd35_entries [OF sd form]
  have "(''mode'', Text ''text-to-image'') \<in> set form"
    using facts(2) by (simp add: isTruthy_def)
  moreover have "(''model'', Text ''sd3.5-large'') \<in> set form"
    using facts(1) by simp
  moreover have "''image'' \<notin> fst ` set form"
    using facts(3) by force
  moreover have "''strength'' \<notin> fst ` set form"
    using facts(4) by (force simp: isTruthy_def)
  ultimately show "\<exists>form. requestForm toStr fs ?plain = Inr form
           \<and> (''mode'', Text ''text-to-image'') \<in> set form
           \<and> (''model'', Text ''sd3.5-large'') \<in> set form
           \<and> ''image'' \<notin> fst ` set form \<and> ''strength'' \<notin> fst ` set form"
    using form by blast
next
  let ?edit = "GenerateImage prompt (Some Sd35Large) negativePrompt (Some path) strength seed
                     aspectRatio outputFormat stylePreset"
  assume given: "path \<noteq> [] \<and> fileBlob fs path = Inr blob"
  then have truthy: "isTruthy (Some path)" by (simp add: isTruthy_def)
  have sd: "startsWith (generationModelName Sd35Large) ''sd3.5''"
    by (simp add: startsWith_def)
  from given have blob: "\<exists>buffer. blob = Blob (getMimeType (resolve fs path)) buffer"
    by (auto simp: fileBlob_Inr)
  have "succeeds (requestForm toStr fs ?edit)"
    using given
    by (simp add: requestForm.simps orElse_def startsWith_def isTruthy_def fileFieldIf_def fileField_def)
  then obtain form where form: "requestForm toStr fs ?edit = Inr form"
    by (auto simp: succeeds_iff)
  note facts = generate_sd35_entries [OF sd form]
  have "(''mode'', Text ''image-to-image'') \<in> set form"
    and "(''mode'', Text ''text-to-image'') \<notin> set form"
    using facts(2) truthy by simp_all
  moreover have "(''model'', Text ''sd3.5-large'') \<in> set form"
    using facts(1) by simp
  moreover have "(''image'', blob) \<in> set form"
    using facts(3) given by simp
  moreover have "\<forall>p. (''strength'', p) \<in> set form
                      \<longleftrightarrow> (\<exists>x. strength = Some x \<and> p = Text (toStr x))"
    using facts(4) truthy by simp
  ultimately show "\<exists>form. requestForm toStr fs ?edit = Inr form
           \<and> (''mode'', Text ''image-to-image'') \<in> set form
           \<and> (''mode'', Text ''text-to-image'') \<notin> set form
           \<and> (''model'', Text ''sd3.5-large'') \<in> set form
           \<and> (''image'', blob) \<in> set form
           \<and> (\<exists>buffer. blob = Blob (getMimeType (resolve fs path)) buffer)
           \<and> (\<forall>p. (''strength'', p) \<in> set form
                      \<longleftrightarrow> (\<exists>x. strength = Some x \<and> p = Text (toStr x)))"
    using form blob by blast
qed

theorem sd35_large_generation_form_witness:
  "requestForm (\<lambda>x. x) examplePlatform
     (GenerateImage ''a cat'' (Some Sd35Large) None (Some ''cat.JPG'') (Some ''0.5'') None None None
        None) =
     Inr [(''prompt'', Text ''a cat''), (''output_format'', Text ''png''),
          (''model'', Text ''sd3.5-large''), (''mode'', Text ''image-to-image''),
          (''image'', Blob ''image/jpeg'' ''JFIF''), (''strength'', Text ''0.5'')]
   \<and> ''cat.JPG'' \<noteq> []
   \<and> fileBlob examplePlatform ''cat.JPG'' = Inr (Blob ''image/jpeg'' ''JFIF'')"
proof -
  have mime: "getMimeType ''/work/cat.JPG'' = ''image/jpeg''" by code_simp
  have blob: "fileBlob examplePlatform ''cat.JPG'' = Inr (Blob ''image/jpeg'' ''JFIF'')"
    by (simp add: fileBlob_def examplePlatform_def startsWith_def mime)
  have form: "requestForm (\<lambda>x. x) examplePlatform
     (GenerateImage ''a cat'' (Some Sd35Large) None (Some ''cat.JPG'') (Some ''0.5'') None None None
        None) =
     Inr [(''prompt'', Text ''a cat''), (''output_format'', Text ''png''),
          (''model'', Text ''sd3.5-large''), (''mode'', Text ''image-to-image''),
          (''image'', Blob ''image/jpeg'' ''JFIF''), (''strength'', Text ''0.5'')]"
    by (simp add: requestForm.simps blob textField_def textFieldIf_def numberFieldIf_def outputFormatField_def
        fileField_def fileFieldIf_def orElse_def isTruthy_def startsWith_def)
  show ?thesis
    using sd35_large_generation_form [of "\<lambda>x. x" examplePlatform "''a cat''" None "Some ''0.5''" None
        None None None "''cat.JPG''" "Blob ''image/jpeg'' ''JFIF''"] blob form
    by simp
qed

text \<open>
  C10. For the model \<^verbatim>\<open>core\<close>, given or by default, an image path is ignored: the form
  is the one built without image and strength, it is built even when the file is missing,
  it has no \<^verbatim>\<open>image\<close>, \<^verbatim>\<open>strength\<close> or \<^verbatim>\<open>mode\<close> entry, and it is posted to the
  endpoint of the core model. A form with an \<^verbatim>\<open>image\<close> entry comes from the model
  \<^verbatim>\<open>ultra\<close> or one of the \<^verbatim>\<open>sd3.5\<close> models only.
\<close>

theorem core_generation_ignores_image:
  "(model = None \<or> model = Some Core \<longrightarrow>
      requestForm toStr fs
        (GenerateImage prompt model negativePrompt image' strength seed aspectRatio
           outputFormat stylePreset) =
      requestForm toStr fs
        (GenerateImage prompt model negativePrompt None None seed aspectRatio
           outputFormat stylePreset)
      \<and> (\<exists>form. requestForm toStr fs
                  (GenerateImage prompt model negativePrompt image' strength seed aspectRatio
                     outputFormat stylePreset) = Inr form
            \<and> ''image'' \<notin> fst ` set form \<and> ''strength'' \<notin> fst ` set form
            \<and> ''mode'' \<notin> fst ` set form
            \<and> perform toStr fs net cfg
                  (GenerateImage prompt model negativePrompt image' strength seed aspectRatio
                     outputFormat stylePreset) tr =
                asImage (postImage net cfg ''/v2beta/stable-image/generate/core'' form tr)))
   \<and> (\<forall>form. requestForm toStr fs
                (GenerateImage prompt model negativePrompt image' strength seed aspectRatio
                   outputFormat stylePreset) = Inr form
              \<and> ''image'' \<in> fst ` set form
          \<longrightarrow> model \<in> {Some Ultra, Some Sd35Large, Some Sd35LargeTurbo, Some Sd35Medium})"
proof (intro conjI impI allI)
  let ?call = "GenerateImage prompt model negativePrompt image' strength seed aspectRatio
              outputFormat stylePreset"
  assume "model = None \<or> model = Some Core"
  then have core: "orElse model Core = Core"
    by (auto simp: orElse_def)
  show "requestForm toStr fs ?call =
      requestForm toStr fs (GenerateImage prompt model negativePrompt None None seed aspectRatio
              outputFormat stylePreset)"
    by (simp add: requestForm.simps core startsWith_def)
  have "succeeds (requestForm toStr fs ?call)"
    by (simp add: requestForm.simps core startsWith_def)
  then obtain form where form: "requestForm toStr fs ?call = Inr form"
    by (auto simp: succeeds_iff)
  have content: "set form = entries (requestForm toStr fs ?call)"
    by (simp only: form entries_Inr)
  have absent: "(n, p) \<notin> set form" if "n \<in> {''image'', ''strength'', ''mode''}" for n p
    unfolding content using that
    by (auto simp: requestForm.simps core startsWith_def entries_inOrder split: if_splits)
  have sent: "perform toStr fs net cfg ?call tr =
      asImage (postImage net cfg ''/v2beta/stable-image/generate/core'' form tr)"
    by (simp add: perform_def form core)
  from absent have "''image'' \<notin> fst ` set form" "''strength'' \<notin> fst ` set form"
    "''mode'' \<notin> fst ` set form"
    by force+
  with form sent show "\<exists>form. requestForm toStr fs ?call = Inr form
            \<and> ''image'' \<notin> fst ` set form \<and> ''strength'' \<notin> fst ` set form
            \<and> ''mode'' \<notin> fst ` set form
            \<and> perform toStr fs net cfg ?call tr =
                asImage (postImage net cfg ''/v2beta/stable-image/generate/core'' form tr)"
    by blast
next
  fix form
  let ?call = "GenerateImage prompt model negativePrompt image' strength seed aspectRatio
              outputFormat stylePreset"
  assume a: "requestForm toStr fs ?call = Inr form \<and> ''image'' \<in> fst ` set form"
  then obtain p where p: "(''image'', p) \<in> set form" by force
  have content: "set form = entries (requestForm toStr fs ?call)"
    using a by (simp only: entries_Inr)
  have ok: "succeeds (requestForm toStr fs ?call)"
    using a by (simp only: succeeds_Inr)
  have "orElse model Core \<noteq> Core"
  proof
    assume core: "orElse model Core = Core"
    show False
      using p ok unfolding content
      by (auto simp: requestForm.simps core startsWith_def entries_inOrder split: if_splits)
  qed
  then show "model \<in> {Some Ultra, Some Sd35Large, Some Sd35LargeTurbo, Some Sd35Medium}"
    by (cases model; cases "the model") (auto simp: orElse_def)
qed

theorem core_generation_ignores_image_witness:
  "requestForm (\<lambda>x. x) examplePlatform
     (GenerateImage ''a cat'' None None (Some ''missing.png'') (Some ''0.5'') None None None None) =
     Inr [(''prompt'', Text ''a cat''), (''output_format'', Text ''png'')]
   \<and> \<not> existsSync examplePlatform (resolve examplePlatform ''missing.png'')
   \<and> requestForm (\<lambda>x. x) examplePlatform
       (GenerateImage ''a cat'' (Some Ultra) None (Some ''cat.JPG'') None None None None None) =
       Inr [(''prompt'', Text ''a cat''), (''output_format'', Text ''png''),
            (''image'', Blob ''image/jpeg'' ''JFIF'')]"
proof -
  have mime: "getMimeType ''/work/cat.JPG'' = ''image/jpeg''" by code_simp
  have blob: "fileBlob examplePlatform ''cat.JPG'' = Inr (Blob ''image/jpeg'' ''JFIF'')"
    by (simp add: fileBlob_def examplePlatform_def startsWith_def mime)
  have ultra: "requestForm (\<lambda>x. x) examplePlatform
       (GenerateImage ''a cat'' (Some Ultra) None (Some ''cat.JPG'') None None None None None) =
       Inr [(''prompt'', Text ''a cat''), (''output_format'', Text ''png''),
            (''image'', Blob ''image/jpeg'' ''JFIF'')]"
    by (simp add: requestForm.simps blob textField_def textFieldIf_def numberFieldIf_def
        outputFormatField_def fileField_def fileFieldIf_def orElse_def isTruthy_def startsWith_def)
  have plain: "requestForm (\<lambda>x. x) examplePlatform
     (GenerateImage ''a cat'' None None None None None None None None) =
     Inr [(''prompt'', Text ''a cat''), (''output_format'', Text ''png'')]"
    by (simp add: requestForm.simps textField_def textFieldIf_def numberFieldIf_def
        outputFormatField_def orElse_def isTruthy_def startsWith_def)
  show ?thesis
    using core_generation_ignores_image [of None "\<lambda>x. x" examplePlatform "''a cat''" None
        "Some ''missing.png''" "Some ''0.5''" None None None None]
      core_generation_ignores_image [of "Some Ultra" "\<lambda>x. x" examplePlatform "''a cat''" None
        "Some ''cat.JPG''" None None None None None] ultra plain
    by (simp add: examplePlatform_def startsWith_def)
qed

text \<open>
  C4 (amended). In every form a method builds, an optional text field is present exactly
  when the caller gave a non-empty value and the model or mode of the call does not leave
  the field out, and then with that value; an optional numeric field is present exactly
  when the caller gave a value and the field is not left out, and then with the printed
  value. So an unset field has no entry, and none with an empty text. Every other entry
  of the form has one of the method's fixed names.
\<close>

theorem optional_fields_in_form:
  assumes "requestForm toStr fs c = Inr form"
  shows "(\<forall>(n, v) \<in> set (optionalTextFields c). \<forall>p.
            (n, p) \<in> set form \<longleftrightarrow> \<not> leftOut c n \<and> (\<exists>s. v = Some s \<and> s \<noteq> [] \<and> p = Text s))
       \<and> (\<forall>(n, v) \<in> set (optionalNumberFields c). \<forall>p.
            (n, p) \<in> set form \<longleftrightarrow> \<not> leftOut c n \<and> (\<exists>x. v = Some x \<and> p = Text (toStr x)))
       \<and> (\<forall>(n, p) \<in> set form.
            n \<in> fst ` set (optionalTextFields c) \<union> fst ` set (optionalNumberFields c)
                \<union> set (fixedFieldNames c))"
proof -
  have content: "set form = entries (requestForm toStr fs c)"
    by (simp only: assms entries_Inr)
  have ok: "succeeds (requestForm toStr fs c)"
    by (simp only: assms succeeds_Inr)
  show ?thesis
  proof (cases c)
    case (GenerateImage prompt model negativePrompt image' strength seed aspectRatio outputFormat
        stylePreset)
    show ?thesis
    proof (cases "orElse model Core")
      case Ultra
      then show ?thesis
        unfolding content using ok GenerateImage
        by (auto simp: requestForm.simps entries_inOrder startsWith_def)
    next
      case Core
      then show ?thesis
        unfolding content using ok GenerateImage
        by (auto simp: requestForm.simps entries_inOrder startsWith_def)
    next
      case Sd35Large
      then show ?thesis
        unfolding content using ok GenerateImage
        by (auto simp: requestForm.simps entries_inOrder startsWith_def)
    next
      case Sd35LargeTurbo
      then show ?thesis
        unfolding content using ok GenerateImage
        by (auto simp: requestForm.simps entries_inOrder startsWith_def)
    next
      case Sd35Medium
      then show ?thesis
        unfolding content using ok GenerateImage
        by (auto simp: requestForm.simps entries_inOrder startsWith_def)
    qed
  next
    case (Generate3D image' model textureResolution foregroundRatio remesh guidanceScale)
    show ?thesis
    proof (cases "orElse model StableFast3d")
      case StableFast3d
      then show ?thesis
        unfolding content using ok Generate3D
        by (auto simp: requestForm.simps entries_inOrder)
    next
      case Spar3d
      then show ?thesis
        unfolding content using ok Generate3D
        by (auto simp: requestForm.simps entries_inOrder)
    qed
  qed (use ok in \<open>auto simp: content requestForm.simps entries_inOrder\<close>)
qed


theorem optional_fields_in_form_witness:
  "requestForm (\<lambda>x. x) examplePlatform
     (UpscaleImage ''cat.JPG'' (Some Conservative) (Some ''sharper'') (Some []) None (Some ''0.2'')
        None) =
     Inr [(''image'', Blob ''image/jpeg'' ''JFIF''), (''output_format'', Text ''png''),
          (''prompt'', Text ''sharper''), (''creativity'', Text ''0.2'')]
   \<and> (\<forall>p. (''negative_prompt'', p) \<notin> set
          [(''image'', Blob ''image/jpeg'' ''JFIF''), (''output_format'', Text ''png''),
           (''prompt'', Text ''sharper''), (''creativity'', Text ''0.2'')])"
proof -
  have mime: "getMimeType ''/work/cat.JPG'' = ''image/jpeg''" by code_simp
  have blob: "fileBlob examplePlatform ''cat.JPG'' = Inr (Blob ''image/jpeg'' ''JFIF'')"
    by (simp add: fileBlob_def examplePlatform_def startsWith_def mime)
  have form: "requestForm (\<lambda>x. x) examplePlatform
     (UpscaleImage ''cat.JPG'' (Some Conservative) (Some ''sharper'') (Some []) None (Some ''0.2'')
        None) =
     Inr [(''image'', Blob ''image/jpeg'' ''JFIF''), (''output_format'', Text ''png''),
          (''prompt'', Text ''sharper''), (''creativity'', Text ''0.2'')]"
    by (simp add: requestForm.simps blob textField_def textFieldIf_def numberFieldIf_def
        outputFormatField_def fileField_def orElse_def)
  show ?thesis
    using optional_fields_in_form [OF form] form by simp
qed

text \<open>
  C4 as stated fails: upscaling in the default mode \<^verbatim>\<open>fast\<close> leaves the prompt and the
  creativity the caller gave out of the form.
\<close>

theorem supplied_field_left_out_counterexample:
  "requestForm (\<lambda>x. x) examplePlatform
     (UpscaleImage ''cat.JPG'' None (Some ''sharper'') None None (Some ''0.2'') None) =
     Inr [(''image'', Blob ''image/jpeg'' ''JFIF''), (''output_format'', Text ''png'')]
   \<and> ''prompt'' \<notin> fst ` set [(''image'', Blob ''image/jpeg'' ''JFIF''),
                                   (''output_format'', Text ''png'')]
   \<and> ''creativity'' \<notin> fst ` set [(''image'', Blob ''image/jpeg'' ''JFIF''),
                                       (''output_format'', Text ''png'')]"
proof -
  have mime: "getMimeType ''/work/cat.JPG'' = ''image/jpeg''" by code_simp
  have blob: "fileBlob examplePlatform ''cat.JPG'' = Inr (Blob ''image/jpeg'' ''JFIF'')"
    by (simp add: fileBlob_def examplePlatform_def startsWith_def mime)
  show ?thesis
    by (simp add: requestForm.simps blob textField_def textFieldIf_def numberFieldIf_def
        outputFormatField_def fileField_def orElse_def)
qed

section \<open>Content types and configuration\<close>

text \<open>
  C6. The content type of a binary part depends on the path through its extension in
  lower case only: it is the entry of the fixed table, or \<^verbatim>\<open>image/png\<close> for an extension
  the table does not have. The five file names of the specification map to
  \<^verbatim>\<open>image/jpeg\<close>, \<^verbatim>\<open>image/jpeg\<close>, \<^verbatim>\<open>image/webp\<close>, \<^verbatim>\<open>image/png\<close>, \<^verbatim>\<open>image/png\<close>.
  \<^verbatim>\<open>fileBlob\<close> types the part by the resolved path.
\<close>

theorem content_type_from_extension:
  "getMimeType p =
     (case map_of [(''.png'', ''image/png''), (''.jpg'', ''image/jpeg''),
                   (''.jpeg'', ''image/jpeg''), (''.webp'', ''image/webp''),
                   (''.gif'', ''image/gif''), (''.bmp'', ''image/bmp'')]
             (toLowerCase (extname p)) of
        Some m \<Rightarrow> m
      | None \<Rightarrow> ''image/png'')
   \<and> (toLowerCase (extname q) = toLowerCase (extname p) \<longrightarrow> getMimeType q = getMimeType p)
   \<and> map getMimeType [''x.jpeg'', ''x.JPG'', ''x.webp'', ''x.png'', ''x.unknown_ext''] =
       [''image/jpeg'', ''image/jpeg'', ''image/webp'', ''image/png'', ''image/png'']
   \<and> (fileBlob fs filePath = Inr blob \<longrightarrow>
        (\<exists>buffer. blob = Blob (getMimeType (resolve fs filePath)) buffer))"
proof (intro conjI impI)
  show "getMimeType p =
     (case map_of [(''.png'', ''image/png''), (''.jpg'', ''image/jpeg''),
                   (''.jpeg'', ''image/jpeg''), (''.webp'', ''image/webp''),
                   (''.gif'', ''image/gif''), (''.bmp'', ''image/bmp'')]
             (toLowerCase (extname p)) of
        Some m \<Rightarrow> m
      | None \<Rightarrow> ''image/png'')"
    by (simp only: getMimeType_def mimeTypes_def Let_def)
  show "getMimeType q = getMimeType p" if "toLowerCase (extname q) = toLowerCase (extname p)"
    using that by (simp only: getMimeType_def Let_def)
  show "map getMimeType [''x.jpeg'', ''x.JPG'', ''x.webp'', ''x.png'', ''x.unknown_ext''] =
       [''image/jpeg'', ''image/jpeg'', ''image/webp'', ''image/png'', ''image/png'']"
    by code_simp
  show "\<exists>buffer. blob = Blob (getMimeType (resolve fs filePath)) buffer"
    if "fileBlob fs filePath = Inr blob"
    using that by (auto simp: fileBlob_Inr)
qed

theorem content_type_from_extension_witness:
  "toLowerCase (extname ''/tmp/photo.jpg'') = toLowerCase (extname ''x.JPG'')
   \<and> getMimeType ''/tmp/photo.jpg'' = getMimeType ''x.JPG''
   \<and> fileBlob examplePlatform ''cat.JPG'' = Inr (Blob ''image/jpeg'' ''JFIF'')"
proof -
  have ext: "toLowerCase (extname ''/tmp/photo.jpg'') = toLowerCase (extname ''x.JPG'')"
    by code_simp
  have mime: "getMimeType ''/work/cat.JPG'' = ''image/jpeg''" by code_simp
  have blob: "fileBlob examplePlatform ''cat.JPG'' = Inr (Blob ''image/jpeg'' ''JFIF'')"
    by (simp add: fileBlob_def examplePlatform_def startsWith_def mime)
  show ?thesis
    using content_type_from_extension [of "''x.JPG''" "''/tmp/photo.jpg''" examplePlatform
        "''cat.JPG''" "Blob ''image/jpeg'' ''JFIF''"] ext blob
    by simp
qed

text \<open>
  C9. With a credential and a time-out that is not a number, \<^verbatim>\<open>loadConfig\<close> does not
  fail: \<^verbatim>\<open>parseInt\<close> gives \<^verbatim>\<open>NaN\<close>, the test \<^verbatim>\<open>timeout <= 0\<close> is false, and the
  configuration returned has the time-out \<^verbatim>\<open>NaN\<close>, which is not a positive integer.
\<close>

theorem loadConfig_accepts_non_numeric_timeout:
  "loadConfig [''STABILITY_API_KEY'' \<mapsto> ''sk-test'', ''STABILITY_TIMEOUT'' \<mapsto> ''abc''] =
     Inr \<lparr>apiKey = ''sk-test'', timeout = NaN, outputDir = ''./generated-images'',
          output3dDir = ''./generated-3d''\<rparr>"
proof -
  have "parseInt ''abc'' (Some 10) = NaN" by code_simp
  then show ?thesis by (simp add: loadConfig_def)
qed

lemma loadConfig_fails_iff:
  "(\<exists>e. loadConfig env = Inl e) \<longleftrightarrow>
     \<not> isTruthy (env ''STABILITY_API_KEY'')
     \<or> (\<exists>t. env ''STABILITY_TIMEOUT'' = Some t \<and> t \<noteq> [] \<and> js_le_zero (parseInt t (Some 10)))"
  by (auto simp: loadConfig_def isTruthy_def Let_def split: option.splits)

lemma loadConfig_default_timeout:
  "isTruthy (env ''STABILITY_API_KEY'') \<Longrightarrow> \<not> isTruthy (env ''STABILITY_TIMEOUT'')
   \<Longrightarrow> \<exists>cfg. loadConfig env = Inr cfg \<and> timeout cfg = Num 60000"
  by (auto simp: loadConfig_def isTruthy_def Let_def split: option.splits)

lemma loadConfig_positive_or_not_finite:
  "loadConfig env = Inr cfg \<Longrightarrow>
     timeout cfg = NaN \<or> timeout cfg = Infinity \<or> (\<exists>t. timeout cfg = Num t \<and> 0 < t)"
  by (cases "timeout cfg")
     (auto simp: loadConfig_def isTruthy_def Let_def split: option.splits if_splits)

section \<open>Properties of the transport\<close>

lemma sent_Nil [simp]: "sent [] = []"
  by (simp add: sent_def)

lemma sent_Cons_Fetch [simp]: "sent (Fetch r # tr) = r # sent tr"
  by (simp add: sent_def)

lemma sent_Cons_Sleep [simp]: "sent (Sleep n # tr) = sent tr"
  by (simp add: sent_def)

text \<open>
  A call of \<^verbatim>\<open>fetch\<close> with a time-out either throws at once and leaves the trace as it
  is, or sends the request and has the answer of the network.
\<close>

lemma fetchWithTimeout_cases:
  "(\<exists>e. abortSignalTimeout net (signal req) = Some e \<and> fetchWithTimeout net req tr = (Rejects e, tr))
   \<or> (abortSignalTimeout net (signal req) = None
       \<and> fetchWithTimeout net req tr = (respond net (length (sent tr)) req, tr @ [Fetch req]))"
  by (cases "abortSignalTimeout net (signal req)") (simp_all add: fetchWithTimeout_def fetch_def)

lemma fetchWithTimeout_requests:
  "\<exists>evs. snd (fetchWithTimeout net req tr) = tr @ evs \<and> set (sent evs) \<subseteq> {req}"
proof (cases "abortSignalTimeout net (signal req)")
  case None
  then have "snd (fetchWithTimeout net req tr) = tr @ [Fetch req]"
    by (simp add: fetchWithTimeout_def fetch_def)
  moreover have "set (sent [Fetch req]) \<subseteq> {req}" by simp
  ultimately show ?thesis by blast
next
  case (Some e)
  then have "snd (fetchWithTimeout net req tr) = tr @ []"
    by (simp add: fetchWithTimeout_def)
  moreover have "set (sent []) \<subseteq> {req}" by simp
  ultimately show ?thesis by blast
qed

lemma pollLoop_requests:
  "\<exists>evs. snd (pollLoop net cfg jobId attempt tr) = tr @ evs
         \<and> set (sent evs) \<subseteq> {pollRequest cfg jobId}"
proof (induction net cfg jobId attempt tr rule: pollLoop.induct)
  case (1 net cfg generationId attempt tr)
  let ?req = "pollRequest cfg generationId"
  let ?tr1 = "tr @ [Sleep pollInterval, Fetch ?req]"
  have one: "set (sent [Sleep pollInterval, Fetch ?req]) \<subseteq> {?req}"
    by simp
  have slept: "set (sent [Sleep pollInterval]) \<subseteq> {?req}"
    by simp
  show ?case
  proof (cases "attempt < maxAttempts")
    case False
    then have "snd (pollLoop net cfg generationId attempt tr) = tr @ []"
      by (subst pollLoop.simps) simp
    moreover have "set (sent []) \<subseteq> {?req}" by simp
    ultimately show ?thesis by blast
  next
    case True
    from fetchWithTimeout_cases [of net ?req "tr @ [Sleep pollInterval]"]
    show ?thesis
    proof (elim disjE exE conjE)
      fix e
      assume "fetchWithTimeout net ?req (tr @ [Sleep pollInterval]) =
          (Rejects e, tr @ [Sleep pollInterval])"
      then have "snd (pollLoop net cfg generationId attempt tr) = tr @ [Sleep pollInterval]"
        using True by (subst pollLoop.simps) simp
      with slept show ?thesis by blast
    next
      assume f: "fetchWithTimeout net ?req (tr @ [Sleep pollInterval]) =
          (respond net (length (sent (tr @ [Sleep pollInterval]))) ?req,
           (tr @ [Sleep pollInterval]) @ [Fetch ?req])"
      show ?thesis
      proof (cases "respond net (length (sent (tr @ [Sleep pollInterval]))) ?req")
        case (Rejects e)
        then have "snd (pollLoop net cfg generationId attempt tr) = tr @ [Sleep pollInterval, Fetch ?req]"
          using True f by (subst pollLoop.simps) simp
        with one show ?thesis by blast
      next
        case (Responds pollResponse)
        show ?thesis
        proof (cases "status pollResponse = 202")
          case False
          then have "snd (pollLoop net cfg generationId attempt tr) =
              tr @ [Sleep pollInterval, Fetch ?req]"
            using True f Responds by (subst pollLoop.simps) simp
          with one show ?thesis by blast
        next
          case pending: True
          have f': "fetchWithTimeout net ?req (tr @ [Sleep pollInterval]) = (Responds pollResponse, ?tr1)"
            using f Responds by simp
          from "1.IH" [OF True f' [symmetric] refl pending]
          obtain evs where evs: "snd (pollLoop net cfg generationId (attempt + 1) ?tr1) = ?tr1 @ evs"
            "set (sent evs) \<subseteq> {?req}"
            by blast
          have "pollLoop net cfg generationId attempt tr =
              pollLoop net cfg generationId (attempt + 1) ?tr1"
            using True f' pending by (subst pollLoop.simps) simp
          then have "snd (pollLoop net cfg generationId attempt tr) =
              tr @ ([Sleep pollInterval, Fetch ?req] @ evs)"
            using evs(1) by simp
          moreover have "set (sent ([Sleep pollInterval, Fetch ?req] @ evs)) \<subseteq> {?req}"
            using evs(2) by simp
          ultimately show ?thesis by blast
        qed
      qed
    qed
  qed
qed

lemma postImage_snd:
  "snd (postImage net cfg endpoint form tr) =
     snd (fetchWithTimeout net (imageRequest cfg endpoint form) tr)"
  by (simp add: postImage_def split: prod.splits fetch_outcome.splits)

lemma postImage_requests:
  "\<exists>evs. snd (postImage net cfg endpoint form tr) = tr @ evs
         \<and> set (sent evs) \<subseteq> {imageRequest cfg endpoint form}"
  unfolding postImage_snd by (rule fetchWithTimeout_requests)

lemma postRaw_requests:
  "\<exists>evs. snd (postRaw net cfg endpoint form tr) = tr @ evs
         \<and> set (sent evs) \<subseteq> {rawRequest cfg endpoint form}"
  unfolding postRaw_def by (rule fetchWithTimeout_requests)

lemma checkBalance_snd:
  "snd (checkBalance net cfg tr) = snd (fetchWithTimeout net (balanceRequest cfg) tr)"
  by (simp add: checkBalance_def split: prod.splits fetch_outcome.splits json_body.splits)

lemma checkBalance_requests:
  "\<exists>evs. snd (checkBalance net cfg tr) = tr @ evs \<and> set (sent evs) \<subseteq> {balanceRequest cfg}"
  unfolding checkBalance_snd by (rule fetchWithTimeout_requests)

lemma postImageAsync_requests:
  "\<exists>evs jobId. snd (postImageAsync net cfg endpoint form tr) = tr @ evs
     \<and> set (sent evs) \<subseteq> {submitRequest cfg endpoint form, pollRequest cfg jobId}"
proof -
  let ?submit = "submitRequest cfg endpoint form"
  let ?tr1 = "tr @ [Fetch ?submit]"
  have stop: "\<exists>evs jobId. snd (postImageAsync net cfg endpoint form tr) = tr @ evs
      \<and> set (sent evs) \<subseteq> {?submit, pollRequest cfg jobId}"
    if "snd (postImageAsync net cfg endpoint form tr) = snd (fetchWithTimeout net ?submit tr)"
  proof -
    from fetchWithTimeout_requests [of net ?submit tr]
    obtain evs where "snd (fetchWithTimeout net ?submit tr) = tr @ evs" "set (sent evs) \<subseteq> {?submit}"
      by blast
    with that have "snd (postImageAsync net cfg endpoint form tr) = tr @ evs"
      "set (sent evs) \<subseteq> {?submit, pollRequest cfg []}"
      by auto
    then show ?thesis by blast
  qed
  from fetchWithTimeout_cases [of net ?submit tr]
  show ?thesis
  proof (elim disjE exE conjE)
    fix e
    assume "fetchWithTimeout net ?submit tr = (Rejects e, tr)"
    then show ?thesis by (intro stop) (simp add: postImageAsync_def)
  next
    assume f: "fetchWithTimeout net ?submit tr = (respond net (length (sent tr)) ?submit, ?tr1)"
    show ?thesis
    proof (cases "respond net (length (sent tr)) ?submit")
      case (Rejects e)
      then show ?thesis using f by (intro stop) (simp add: postImageAsync_def)
    next
      case (Responds submitResponse)
      show ?thesis
      proof (cases "ok submitResponse")
        case False
        then show ?thesis using f Responds by (intro stop) (simp add: postImageAsync_def)
      next
        case True
        show ?thesis
        proof (cases "json submitResponse")
          case (JsonThrows e)
          then show ?thesis using f Responds True by (intro stop) (simp add: postImageAsync_def)
        next
          case (JsonObject submitData)
          show ?thesis
          proof (cases "submitData ''id''")
            case None
            then show ?thesis
              using f Responds True JsonObject by (intro stop) (simp add: postImageAsync_def)
          next
            case (Some generationId)
            show ?thesis
            proof (cases "truthy generationId")
              case False
              then show ?thesis
                using f Responds \<open>ok submitResponse\<close> JsonObject Some
                by (intro stop) (simp add: postImageAsync_def)
            next
              case True
              then have run: "postImageAsync net cfg endpoint form tr =
                  pollLoop net cfg (printed generationId) 0 ?tr1"
                using f Responds \<open>ok submitResponse\<close> JsonObject Some
                by (simp add: postImageAsync_def)
              from pollLoop_requests [of net cfg "printed generationId" 0 ?tr1]
              obtain evs where evs: "snd (pollLoop net cfg (printed generationId) 0 ?tr1) = ?tr1 @ evs"
                "set (sent evs) \<subseteq> {pollRequest cfg (printed generationId)}"
                by blast
              have "snd (postImageAsync net cfg endpoint form tr) = tr @ (Fetch ?submit # evs)"
                unfolding run using evs(1) by simp
              moreover have "set (sent (Fetch ?submit # evs)) \<subseteq>
                  {?submit, pollRequest cfg (printed generationId)}"
                using evs(2) by auto
              ultimately show ?thesis by blast
            qed
          qed
        qed
      qed
    qed
  qed
qed

lemma imageRequest_kind:
  "signal (imageRequest cfg endpoint form) = js_times (timeout cfg) (Num 3)"
  "isBinaryCall (imageRequest cfg endpoint form)"
  "isStatusCall (imageRequest cfg endpoint form)
     \<longleftrightarrow> endpoint = ''/v2beta/stable-image/upscale/creative''"
  by (simp_all add: imageRequest_def isStatusCall_def isBinaryCall_def isResultsPoll_def isBalanceCheck_def
      isJobSubmission_def)

lemma rawRequest_kind:
  "signal (rawRequest cfg endpoint form) = js_times (timeout cfg) (Num 3)"
  "isStatusCall (rawRequest cfg endpoint form)
     \<longleftrightarrow> endpoint = ''/v2beta/stable-image/upscale/creative''"
  "isBinaryCall (rawRequest cfg (THREE_D_ENDPOINTS m) form)"
  by (cases m; simp add: rawRequest_def isStatusCall_def isBinaryCall_def isResultsPoll_def isBalanceCheck_def
      isJobSubmission_def)+

lemma submitRequest_kind:
  "signal (submitRequest cfg endpoint form) = timeout cfg"
  "isStatusCall (submitRequest cfg ''/v2beta/stable-image/upscale/creative'' form)"
  "\<not> isBinaryCall (submitRequest cfg ''/v2beta/stable-image/upscale/creative'' form)"
  by (simp_all add: submitRequest_def isJobSubmission_def isStatusCall_def isBinaryCall_def
      API_BASE_def)

lemma pollRequest_kind:
  "signal (pollRequest cfg jobId) = timeout cfg"
  "isStatusCall (pollRequest cfg jobId)"
  "\<not> isBinaryCall (pollRequest cfg jobId)"
  by (simp_all add: pollRequest_def isResultsPoll_def startsWith_def isStatusCall_def
      isBinaryCall_def)

lemma balanceRequest_kind:
  "signal (balanceRequest cfg) = timeout cfg"
  "isBalanceCheck (balanceRequest cfg)"
  "\<not> isBinaryCall (balanceRequest cfg)"
  by (simp_all add: balanceRequest_def isBalanceCheck_def isBinaryCall_def)

lemma endpoints_not_creative:
  "GENERATION_MODELS g \<noteq> ''/v2beta/stable-image/upscale/creative''"
  "EDIT_ENDPOINTS e \<noteq> ''/v2beta/stable-image/upscale/creative''"
  "CONTROL_ENDPOINTS k \<noteq> ''/v2beta/stable-image/upscale/creative''"
  "THREE_D_ENDPOINTS d \<noteq> ''/v2beta/stable-image/upscale/creative''"
  "UPSCALE_ENDPOINTS u = ''/v2beta/stable-image/upscale/creative'' \<longleftrightarrow> u = Creative"
  subgoal by (cases g) simp_all
  subgoal by (cases e) simp_all
  subgoal by (cases k) simp_all
  subgoal by (cases d) simp_all
  subgoal by (cases u) simp_all
  done

lemma asImage_snd [simp]: "snd (asImage r) = snd r"
  by (cases r; cases "fst r") (auto simp: asImage_def)

lemma postImage_deadline:
  assumes "endpoint \<noteq> ''/v2beta/stable-image/upscale/creative''"
  shows "\<forall>r\<in>set (sent (snd (postImage net cfg endpoint form []))). deadlineRule cfg r"
proof -
  from postImage_requests [of net cfg endpoint form "[]"]
  obtain evs where "snd (postImage net cfg endpoint form []) = evs"
    "set (sent evs) \<subseteq> {imageRequest cfg endpoint form}"
    by auto
  moreover have "deadlineRule cfg (imageRequest cfg endpoint form)"
    using assms by (simp add: deadlineRule_def imageRequest_kind)
  ultimately show ?thesis by auto
qed

lemma postImageAsync_deadline:
  "\<forall>r\<in>set (sent (snd (postImageAsync net cfg ''/v2beta/stable-image/upscale/creative'' form []))).
     deadlineRule cfg r"
proof -
  let ?ep = "''/v2beta/stable-image/upscale/creative''"
  from postImageAsync_requests [of net cfg ?ep form "[]"]
  obtain evs jobId where "snd (postImageAsync net cfg ?ep form []) = evs"
    "set (sent evs) \<subseteq> {submitRequest cfg ?ep form, pollRequest cfg jobId}"
    by auto
  moreover have "deadlineRule cfg (submitRequest cfg ?ep form)"
    by (simp add: deadlineRule_def submitRequest_kind)
  moreover have "deadlineRule cfg (pollRequest cfg jobId)"
    by (simp add: deadlineRule_def pollRequest_kind)
  ultimately show ?thesis by auto
qed

lemma postRaw_deadline:
  "\<forall>r\<in>set (sent (snd (postRaw net cfg (THREE_D_ENDPOINTS m) form []))). deadlineRule cfg r"
proof -
  from postRaw_requests [of net cfg "THREE_D_ENDPOINTS m" form "[]"]
  obtain evs where "snd (postRaw net cfg (THREE_D_ENDPOINTS m) form []) = evs"
    "set (sent evs) \<subseteq> {rawRequest cfg (THREE_D_ENDPOINTS m) form}"
    by auto
  moreover have "deadlineRule cfg (rawRequest cfg (THREE_D_ENDPOINTS m) form)"
    by (simp add: deadlineRule_def rawRequest_kind endpoints_not_creative)
  ultimately show ?thesis by auto
qed

lemma send_requests:
  "\<forall>r\<in>set (sent (snd (send net cfg c form []))). deadlineRule cfg r"
proof (cases c)
  case (UpscaleImage image' mode prompt negativePrompt seed creativity outputFormat)
  show ?thesis
  proof (cases "orElse mode Fast = Creative")
    case True
    then show ?thesis
      using UpscaleImage postImageAsync_deadline [of net cfg form] by simp
  next
    case False
    then have "UPSCALE_ENDPOINTS (orElse mode Fast) \<noteq> ''/v2beta/stable-image/upscale/creative''"
      by (simp add: endpoints_not_creative)
    from postImage_deadline [OF this, of net cfg form] show ?thesis
      using UpscaleImage False by simp
  qed
next
  case (Generate3D image' model textureResolution foregroundRatio remesh guidanceScale)
  let ?ep = "THREE_D_ENDPOINTS (orElse model StableFast3d)"
  have "snd (send net cfg c form []) = snd (postRaw net cfg ?ep form [])"
    using Generate3D by (simp split: prod.splits fetch_outcome.splits)
  then show ?thesis
    using postRaw_deadline [of net cfg "orElse model StableFast3d" form] by simp
qed (simp_all, (rule postImage_deadline, simp add: endpoints_not_creative)+)

text \<open>
  C7. Every request a method of the client sends is either a binary call (a form posted
  for an image or a mesh) or a status call (job submission, results poll, balance
  check), never both; its deadline is three times the configured time-out when it is a
  binary call and the configured time-out when it is a status call.
\<close>

theorem request_deadlines:
  "(\<forall>r \<in> set (sent (snd (perform toStr fs net cfg c []))).
      (isBinaryCall r \<longleftrightarrow> \<not> isStatusCall r)
      \<and> signal r = (if isBinaryCall r then js_times (timeout cfg) (Num 3) else timeout cfg))
   \<and> (\<forall>r \<in> set (sent (snd (checkBalance net cfg []))).
        isBalanceCheck r \<and> \<not> isBinaryCall r \<and> signal r = timeout cfg)"
proof (intro conjI)
  show "\<forall>r \<in> set (sent (snd (perform toStr fs net cfg c []))).
      (isBinaryCall r \<longleftrightarrow> \<not> isStatusCall r)
      \<and> signal r = (if isBinaryCall r then js_times (timeout cfg) (Num 3) else timeout cfg)"
  proof (cases "requestForm toStr fs c")
    case (Inl e)
    then show ?thesis by (simp add: perform_def)
  next
    case (Inr form)
    then show ?thesis
      using send_requests [of net cfg c form] by (simp add: perform_def deadlineRule_def)
  qed
  from checkBalance_requests [of net cfg "[]"]
  obtain evs where "snd (checkBalance net cfg []) = evs" "set (sent evs) \<subseteq> {balanceRequest cfg}"
    by auto
  then show "\<forall>r \<in> set (sent (snd (checkBalance net cfg []))).
        isBalanceCheck r \<and> \<not> isBinaryCall r \<and> signal r = timeout cfg"
    by (auto simp: balanceRequest_kind)
qed

lemma example_blob: "fileBlob examplePlatform ''cat.JPG'' = Inr (Blob ''image/jpeg'' ''JFIF'')"
proof -
  have "getMimeType ''/work/cat.JPG'' = ''image/jpeg''" by code_simp
  then show ?thesis
    by (simp add: fileBlob_def examplePlatform_def startsWith_def)
qed

lemma toDouble_exact: "\<bar>i\<bar> < 2 ^ 53 \<Longrightarrow> toDouble i = Num i"
  by (simp add: toDouble_def)

lemma exampleRuntime_accepts:
  "0 \<le> i \<Longrightarrow> i \<le> 4294967295 \<Longrightarrow> abortSignalTimeout (exampleRuntime answers) (Num i) = None"
  by (simp add: exampleRuntime_def)

lemma exampleRuntime_respond [simp]: "respond (exampleRuntime answers) = answers"
  by (simp add: exampleRuntime_def)

theorem request_deadlines_witness:
  "map signal (sent (snd (perform (\<lambda>x. x) examplePlatform readyOnFourthPoll exampleConfig
       (UpscaleImage ''cat.JPG'' (Some Creative) None None None None None) []))) =
     [Num 60000, Num 60000, Num 60000, Num 60000, Num 60000]
   \<and> map signal (sent (snd (perform (\<lambda>x. x) examplePlatform readyOnFourthPoll exampleConfig
       (RemoveBackground ''cat.JPG'' None) []))) = [Num 180000]
   \<and> map signal (sent (snd (checkBalance readyOnFourthPoll exampleConfig []))) = [Num 60000]"
proof -
  let ?form = "[(''image'', Blob ''image/jpeg'' ''JFIF''), (''output_format'', Text ''png'')]"
  let ?ep = "''/v2beta/stable-image/upscale/creative''"
  have form1: "requestForm (\<lambda>x. x) examplePlatform
      (UpscaleImage ''cat.JPG'' (Some Creative) None None None None None) = Inr ?form"
    by (simp add: requestForm.simps example_blob textFieldIf_def numberFieldIf_def
        outputFormatField_def fileField_def orElse_def)
  have form2: "requestForm (\<lambda>x. x) examplePlatform (RemoveBackground ''cat.JPG'' None) = Inr ?form"
    by (simp add: requestForm.simps example_blob outputFormatField_def fileField_def)
  have base: "abortSignalTimeout readyOnFourthPoll (timeout exampleConfig) = None"
    by (simp add: readyOnFourthPoll_def exampleRuntime_accepts exampleConfig_def)
  have tripled: "js_times (timeout exampleConfig) (Num 3) = Num 180000"
    by (simp add: exampleConfig_def toDouble_exact)
  have long: "abortSignalTimeout readyOnFourthPoll (js_times (timeout exampleConfig) (Num 3)) = None"
    unfolding tripled by (simp add: readyOnFourthPoll_def exampleRuntime_accepts)
  have async: "snd (postImageAsync readyOnFourthPoll exampleConfig ?ep ?form []) =
      [Fetch (submitRequest exampleConfig ?ep ?form),
       Sleep 5000, Fetch (pollRequest exampleConfig ''abc123''),
       Sleep 5000, Fetch (pollRequest exampleConfig ''abc123''),
       Sleep 5000, Fetch (pollRequest exampleConfig ''abc123''),
       Sleep 5000, Fetch (pollRequest exampleConfig ''abc123'')]"
    using base
    by (simp add: postImageAsync_def fetchWithTimeout_accepted fetch_def pollLoop.simps
        readyOnFourthPoll_def acceptedResponse_def pendingResponse_def readyResponse_def ok_def
        maxAttempts_def pollInterval_def sent_append)
  have run1: "snd (perform (\<lambda>x. x) examplePlatform readyOnFourthPoll exampleConfig
       (UpscaleImage ''cat.JPG'' (Some Creative) None None None None None) []) =
      snd (postImageAsync readyOnFourthPoll exampleConfig ?ep ?form [])"
    by (simp add: perform_def form1 orElse_def)
  have run2: "snd (perform (\<lambda>x. x) examplePlatform readyOnFourthPoll exampleConfig
       (RemoveBackground ''cat.JPG'' None) []) =
      [Fetch (imageRequest exampleConfig ''/v2beta/stable-image/edit/remove-background'' ?form)]"
    using long
    by (simp add: perform_def form2 postImage_snd fetchWithTimeout_accepted imageRequest_kind
        fetch_def)
  have run3: "snd (checkBalance readyOnFourthPoll exampleConfig []) =
      [Fetch (balanceRequest exampleConfig)]"
    using base
    by (simp add: checkBalance_snd fetchWithTimeout_accepted balanceRequest_kind fetch_def)
  show ?thesis
    using request_deadlines [of "\<lambda>x. x" examplePlatform readyOnFourthPoll exampleConfig
        "UpscaleImage ''cat.JPG'' (Some Creative) None None None None None"]
      request_deadlines [of "\<lambda>x. x" examplePlatform readyOnFourthPoll exampleConfig
        "RemoveBackground ''cat.JPG'' None"]
    unfolding run1 run2 run3 async
    by (simp add: submitRequest_def pollRequest_def imageRequest_def balanceRequest_def
        exampleConfig_def toDouble_exact)
qed

text \<open>With a delay the runtime refuses, a method throws before anything is sent.\<close>

lemma refused_delay_sends_nothing:
  "abortSignalTimeout net (js_times (timeout cfg) (Num 3)) = Some e \<Longrightarrow>
     postImage net cfg endpoint form tr = (Inl e, tr)"
  "abortSignalTimeout net (js_times (timeout cfg) (Num 3)) = Some e \<Longrightarrow>
     postRaw net cfg endpoint form tr = (Rejects e, tr)"
  "abortSignalTimeout net (timeout cfg) = Some e \<Longrightarrow> checkBalance net cfg tr = (Inl e, tr)"
  "abortSignalTimeout net (timeout cfg) = Some e \<Longrightarrow> attempt < maxAttempts \<Longrightarrow>
     pollLoop net cfg jobId attempt tr = (Inl e, tr @ [Sleep 5000])"
  subgoal by (simp add: postImage_def fetchWithTimeout_refused imageRequest_kind)
  subgoal by (simp add: postRaw_def fetchWithTimeout_refused rawRequest_kind)
  subgoal by (simp add: checkBalance_def fetchWithTimeout_refused balanceRequest_kind)
  subgoal by (subst pollLoop.simps) (simp add: fetchWithTimeout_refused pollInterval_def)
  done

text \<open>
  Two configurations \<^verbatim>\<open>loadConfig\<close> can return, on a runtime that refuses the delays
  Node refuses: with the time-out \<^verbatim>\<open>NaN\<close> the poller throws the \<^verbatim>\<open>RangeError\<close> and sends
  nothing, and so does an image post with the time-out 1500000000, whose triple is above
  4294967295.
\<close>

lemma invalid_timeout_sends_nothing:
  "postImageAsync readyOnFourthPoll (exampleConfig\<lparr>timeout := NaN\<rparr>)
     ''/v2beta/stable-image/upscale/creative'' [] [] =
     (Inl \<lparr>name = ''RangeError'', message = ''out of range''\<rparr>, [])"
  "postImage (answering (errorResponse 401)) (exampleConfig\<lparr>timeout := Num 1500000000\<rparr>)
     ''/v2beta/stable-image/generate/core'' [] [] =
     (Inl \<lparr>name = ''RangeError'', message = ''out of range''\<rparr>, [])"
  subgoal
    by (simp add: postImageAsync_def fetchWithTimeout_def submitRequest_def readyOnFourthPoll_def
        exampleRuntime_def)
  subgoal
    by (simp add: postImage_def fetchWithTimeout_def imageRequest_def answering_def
        exampleRuntime_def toDouble_exact)
  done

text \<open>
  C3 (amended). With a time-out that \<^verbatim>\<open>AbortSignal.timeout\<close> accepts, plain and tripled,
  on every dispatch path a response that is not a success gives an error whose message
  is the label of the path, the status code in decimal and the text of the body as
  \<^verbatim>\<open>response.text()\<close> gives it, whatever the status: \<^verbatim>\<open>Stability AI error\<close> for an image
  post and for the submission of a job, \<^verbatim>\<open>Polling failed\<close> for a poll,
  \<^verbatim>\<open>3D generation failed\<close>, \<^verbatim>\<open>Failed to check balance\<close>. A rejection of \<^verbatim>\<open>fetch\<close>, such as
  the time-out of the request, is thrown on as it is.
\<close>

theorem transport_errors_carry_status_and_body:
  assumes failed: "\<not> ok response"
    and base: "abortSignalTimeout net (timeout cfg) = None"
    and tripled: "abortSignalTimeout net (js_times (timeout cfg) (Num 3)) = None"
  shows "(respond net (length (sent tr)) (imageRequest cfg endpoint form) = Responds response \<longrightarrow>
            postImage net cfg endpoint form tr =
              (Inl (Error (''Stability AI error (HTTP '' @ decimal (status response) @ ''): ''
                           @ bodyText response)),
               tr @ [Fetch (imageRequest cfg endpoint form)]))
       \<and> (respond net (length (sent tr)) (submitRequest cfg endpoint form) = Responds response \<longrightarrow>
            postImageAsync net cfg endpoint form tr =
              (Inl (Error (''Stability AI error (HTTP '' @ decimal (status response) @ ''): ''
                           @ bodyText response)),
               tr @ [Fetch (submitRequest cfg endpoint form)]))
       \<and> (attempt < maxAttempts
            \<and> respond net (length (sent tr)) (pollRequest cfg jobId) = Responds response \<longrightarrow>
            pollLoop net cfg jobId attempt tr =
              (Inl (Error (''Polling failed (HTTP '' @ decimal (status response) @ ''): ''
                           @ bodyText response)),
               tr @ [Sleep 5000, Fetch (pollRequest cfg jobId)]))
       \<and> (respond net (length (sent tr))
              (rawRequest cfg (THREE_D_ENDPOINTS (orElse model StableFast3d)) form)
              = Responds response \<longrightarrow>
            send net cfg
              (Generate3D image' model textureResolution foregroundRatio remesh guidanceScale)
              form tr =
              (Inl (Error (''3D generation failed (HTTP '' @ decimal (status response) @ ''): ''
                           @ bodyText response)),
               tr @ [Fetch (rawRequest cfg (THREE_D_ENDPOINTS (orElse model StableFast3d)) form)]))
       \<and> (respond net (length (sent tr)) (balanceRequest cfg) = Responds response \<longrightarrow>
            checkBalance net cfg tr =
              (Inl (Error (''Failed to check balance (HTTP '' @ decimal (status response)
                           @ ''): '' @ bodyText response)),
               tr @ [Fetch (balanceRequest cfg)]))
       \<and> (respond net (length (sent tr)) (imageRequest cfg endpoint form) = Rejects e \<longrightarrow>
            postImage net cfg endpoint form tr =
              (Inl e, tr @ [Fetch (imageRequest cfg endpoint form)]))
       \<and> (respond net (length (sent tr)) (submitRequest cfg endpoint form) = Rejects e \<longrightarrow>
            postImageAsync net cfg endpoint form tr =
              (Inl e, tr @ [Fetch (submitRequest cfg endpoint form)]))
       \<and> (attempt < maxAttempts
            \<and> respond net (length (sent tr)) (pollRequest cfg jobId) = Rejects e \<longrightarrow>
            pollLoop net cfg jobId attempt tr =
              (Inl e, tr @ [Sleep 5000, Fetch (pollRequest cfg jobId)]))
       \<and> (respond net (length (sent tr))
              (rawRequest cfg (THREE_D_ENDPOINTS (orElse model StableFast3d)) form)
              = Rejects e \<longrightarrow>
            send net cfg
              (Generate3D image' model textureResolution foregroundRatio remesh guidanceScale)
              form tr =
              (Inl e,
               tr @ [Fetch (rawRequest cfg (THREE_D_ENDPOINTS (orElse model StableFast3d)) form)]))
       \<and> (respond net (length (sent tr)) (balanceRequest cfg) = Rejects e \<longrightarrow>
            checkBalance net cfg tr = (Inl e, tr @ [Fetch (balanceRequest cfg)]))"
proof -
  from failed have not202: "status response \<noteq> 202"
    by (auto simp: ok_def)
  have plain: "fetchWithTimeout net req tr' = fetch net req tr'" if "signal req = timeout cfg"
    for req tr'
    using that base by (simp add: fetchWithTimeout_accepted)
  have long: "fetchWithTimeout net req tr' = fetch net req tr'"
    if "signal req = js_times (timeout cfg) (Num 3)" for req tr'
    using that tripled by (simp add: fetchWithTimeout_accepted)
  have poll: "pollLoop net cfg jobId attempt tr =
      (Inl (Error (''Polling failed (HTTP '' @ decimal (status response) @ ''): ''
                   @ bodyText response)),
       tr @ [Sleep 5000, Fetch (pollRequest cfg jobId)])"
    if "attempt < maxAttempts" "respond net (length (sent tr)) (pollRequest cfg jobId) = Responds response"
    using that failed not202
    by (subst pollLoop.simps)
       (simp add: plain pollRequest_kind fetch_def sent_append sent_Sleep pollInterval_def)
  have rejected: "pollLoop net cfg jobId attempt tr =
      (Inl e, tr @ [Sleep 5000, Fetch (pollRequest cfg jobId)])"
    if "attempt < maxAttempts" "respond net (length (sent tr)) (pollRequest cfg jobId) = Rejects e"
    using that
    by (subst pollLoop.simps)
       (simp add: plain pollRequest_kind fetch_def sent_append sent_Sleep pollInterval_def)
  show ?thesis
    using failed poll rejected
    by (simp add: postImage_def postImageAsync_def checkBalance_def postRaw_def fetch_def
        plain long imageRequest_kind rawRequest_kind submitRequest_kind balanceRequest_kind)
qed

theorem transport_errors_carry_status_and_body_witness:
  "postImage (answering (errorResponse 500)) exampleConfig ''/v2beta/stable-image/generate/core''
     [] [] =
     (Inl \<lparr>name = ''Error'', message = ''Stability AI error (HTTP 500): unauthorized''\<rparr>,
      [Fetch (imageRequest exampleConfig ''/v2beta/stable-image/generate/core'' [])])
   \<and> \<not> ok (errorResponse 500)
   \<and> abortSignalTimeout (answering (errorResponse 500)) (timeout exampleConfig) = None
   \<and> abortSignalTimeout (answering (errorResponse 500))
       (js_times (timeout exampleConfig) (Num 3)) = None"
proof -
  have bad: "\<not> ok (errorResponse 500)"
    by (simp add: ok_def errorResponse_def)
  have base: "abortSignalTimeout (answering (errorResponse 500)) (timeout exampleConfig) = None"
    by (simp add: answering_def exampleRuntime_accepts exampleConfig_def)
  have tripled: "abortSignalTimeout (answering (errorResponse 500))
      (js_times (timeout exampleConfig) (Num 3)) = None"
    by (simp add: answering_def exampleRuntime_accepts exampleConfig_def toDouble_exact)
  have shown: "decimal 500 = ''500''"
    by (simp add: decimal.simps digit_def)
  show ?thesis
    using transport_errors_carry_status_and_body [OF bad base tripled, of "[]"
        "''/v2beta/stable-image/generate/core''" "[]"] bad base tripled
    by (simp add: answering_def errorResponse_def Error_def shown)
qed

text \<open>
  C3 as stated fails: for the status 401 \<^verbatim>\<open>postImage\<close> throws the same message with the
  raw status code as for any other status. The message reserved for that status is the
  one \<^verbatim>\<open>handleError\<close> would give, and no dispatch path calls \<^verbatim>\<open>handleError\<close>.
\<close>

theorem unauthorized_keeps_raw_status_counterexample:
  "fst (postImage (answering (errorResponse 401)) exampleConfig
          ''/v2beta/stable-image/generate/core'' [] []) =
     Inl \<lparr>name = ''Error'', message = ''Stability AI error (HTTP 401): unauthorized''\<rparr>
   \<and> handleError \<lparr>name = ''Error'', message = ''Stability AI error (HTTP 401): unauthorized''\<rparr> =
     \<lparr>name = ''Error'',
      message = ''Invalid Stability AI API key. Please check your STABILITY_API_KEY environment variable.''\<rparr>"
proof -
  have shown: "decimal 401 = ''401''"
    by (simp add: decimal.simps digit_def)
  have bad: "\<not> ok (errorResponse 401)"
    by (simp add: ok_def errorResponse_def)
  have tripled: "abortSignalTimeout (answering (errorResponse 401))
      (js_times (timeout exampleConfig) (Num 3)) = None"
    by (simp add: answering_def exampleRuntime_accepts exampleConfig_def toDouble_exact)
  have run: "fst (postImage (answering (errorResponse 401)) exampleConfig
          ''/v2beta/stable-image/generate/core'' [] []) =
     Inl \<lparr>name = ''Error'', message = ''Stability AI error (HTTP 401): unauthorized''\<rparr>"
    using bad shown tripled
    by (simp add: postImage_def fetchWithTimeout_accepted imageRequest_kind fetch_def
        answering_def Error_def errorResponse_def)
  have "handleError \<lparr>name = ''Error'', message = ''Stability AI error (HTTP 401): unauthorized''\<rparr> =
     \<lparr>name = ''Error'',
      message = ''Invalid Stability AI API key. Please check your STABILITY_API_KEY environment variable.''\<rparr>"
    by code_simp
  with run show ?thesis by simp
qed

section \<open>Properties of the tool handlers\<close>













end
